theory Spec2Isabelle
  imports Main
begin

section \<open>Errors\<close>

text \<open>
  Go errors are values. The service builds them with \<^verbatim>\<open>fmt.Errorf\<close>, either from a
  literal message or by wrapping another error behind a context prefix (\<^verbatim>\<open>"ctx: %w"\<close>);
  the libraries it calls return errors of their own. DynamoDB answers a write whose
  condition expression is false with \<^verbatim>\<open>ConditionalCheckFailedException\<close>.
\<close>

datatype error =
    Errorf string
  | Wrap string error
  | LibraryError string
  | ConditionalCheckFailedException

fun Error_string :: "error \<Rightarrow> string" where
  "Error_string (Errorf m) = m"
| "Error_string (Wrap ctx err) = ctx @ '': '' @ Error_string err"
| "Error_string (LibraryError m) = m"
| "Error_string ConditionalCheckFailedException = ''ConditionalCheckFailedException''"

fun is_conditional_check_failure :: "error \<Rightarrow> bool" where
  "is_conditional_check_failure ConditionalCheckFailedException = True"
| "is_conditional_check_failure (Wrap ctx err) = is_conditional_check_failure err"
| "is_conditional_check_failure _ = False"

section \<open>Record model (package models)\<close>

text \<open>
  A Go \<^verbatim>\<open>[]string\<close> is a \<open>string list option\<close>: \<open>None\<close> is the nil slice, which the
  validator distinguishes from an empty one. \<^verbatim>\<open>int64\<close> epoch seconds are integers (the
  code only copies and compares them); \<^verbatim>\<open>*int64\<close> is an optional integer.
\<close>

record LaborLine =
  LaborLineID :: string
  ContactID :: string
  AccountID :: string
  TaskID :: string
  PartID :: "string list option"
  Notes :: "string list option"
  CreatedAt :: int
  UpdatedAt :: int
  DeletedAt :: "int option"
  PK :: string
  SK :: string

record CreateLaborLineInput =
  cContactID :: string
  cAccountID :: string
  cTaskID :: string
  cPartID :: "string list option"
  cNotes :: "string list option"

record UpdateLaborLineInput =
  uLaborLineID :: string
  uContactID :: string
  uAccountID :: string
  uTaskID :: string
  uPartID :: "string list option"
  uNotes :: "string list option"

record GetLaborLineInput =
  gAccountID :: string
  gTaskID :: string
  gLaborLineID :: string

record ListLaborLinesInput =
  lAccountID :: string
  lTaskID :: string

record DeleteLaborLineInput =
  dAccountID :: string
  dTaskID :: string
  dLaborLineID :: string

text \<open>The zero values of the input structs, as \<^verbatim>\<open>var input T\<close> declares them.\<close>

definition zeroCreateLaborLineInput :: CreateLaborLineInput where
  "zeroCreateLaborLineInput =
     \<lparr>cContactID = [], cAccountID = [], cTaskID = [], cPartID = None, cNotes = None\<rparr>"

definition zeroUpdateLaborLineInput :: UpdateLaborLineInput where
  "zeroUpdateLaborLineInput =
     \<lparr>uLaborLineID = [], uContactID = [], uAccountID = [], uTaskID = [],
      uPartID = None, uNotes = None\<rparr>"

definition zeroGetLaborLineInput :: GetLaborLineInput where
  "zeroGetLaborLineInput = \<lparr>gAccountID = [], gTaskID = [], gLaborLineID = []\<rparr>"

definition zeroListLaborLinesInput :: ListLaborLinesInput where
  "zeroListLaborLinesInput = \<lparr>lAccountID = [], lTaskID = []\<rparr>"

definition zeroDeleteLaborLineInput :: DeleteLaborLineInput where
  "zeroDeleteLaborLineInput = \<lparr>dAccountID = [], dTaskID = [], dLaborLineID = []\<rparr>"

text \<open>
  \<^verbatim>\<open>NewLaborLine\<close> reads the clock and draws an identifier; both are arguments here
  (\<open>now\<close> is \<^verbatim>\<open>time.Now().Unix()\<close>, \<open>laborLineID\<close> is \<^verbatim>\<open>uuid.New().String()\<close>).
  \<open>DeletedAt\<close> is not set, so it is nil.
\<close>

definition NewLaborLine :: "int \<Rightarrow> string \<Rightarrow> CreateLaborLineInput \<Rightarrow> LaborLine" where
  "NewLaborLine now laborLineID input =
     \<lparr>LaborLineID = laborLineID,
      ContactID = cContactID input,
      AccountID = cAccountID input,
      TaskID = cTaskID input,
      PartID = cPartID input,
      Notes = cNotes input,
      CreatedAt = now,
      UpdatedAt = now,
      DeletedAt = None,
      PK = cAccountID input,
      SK = cTaskID input @ ''#'' @ laborLineID\<rparr>"

text \<open>\<^verbatim>\<open>ToLaborLine\<close> leaves \<open>CreatedAt\<close> at its zero value and \<open>DeletedAt\<close> nil.\<close>

definition ToLaborLine :: "int \<Rightarrow> UpdateLaborLineInput \<Rightarrow> LaborLine" where
  "ToLaborLine now input =
     \<lparr>LaborLineID = uLaborLineID input,
      ContactID = uContactID input,
      AccountID = uAccountID input,
      TaskID = uTaskID input,
      PartID = uPartID input,
      Notes = uNotes input,
      CreatedAt = 0,
      UpdatedAt = now,
      DeletedAt = None,
      PK = uAccountID input,
      SK = uTaskID input @ ''#'' @ uLaborLineID input\<rparr>"

definition IsDeleted :: "LaborLine \<Rightarrow> bool" where
  "IsDeleted ll = (DeletedAt ll \<noteq> None)"

definition SoftDelete :: "int \<Rightarrow> LaborLine \<Rightarrow> LaborLine" where
  "SoftDelete now ll = ll\<lparr>DeletedAt := Some now, UpdatedAt := now\<rparr>"

section \<open>Imported packages\<close>

text \<open>
  The values an \<^verbatim>\<open>interface{}\<close> holds after the event has been read from JSON.
\<close>

datatype json =
    JNull
  | JBool bool
  | JNumber int
  | JString string
  | JArray "json list"
  | JObject "(string \<times> json) list"

text \<open>
  The values the validator puts into its \<^verbatim>\<open>map[string]interface{}\<close>: a string or a
  \<^verbatim>\<open>[]string\<close>.
\<close>

datatype anyval = VString string | VStrings "string list"

type_synonym data = "string \<rightharpoonup> anyval"

text \<open>
  The functions of imported packages that the service calls are parameters of the model,
  so that every theorem holds whatever those packages compute:
  \<^item> \<open>uuid_Parse s\<close>: \<^verbatim>\<open>uuid.Parse(s)\<close> returned no error;
  \<^item> \<open>Validate data\<close>: \<^verbatim>\<open>schema.Validate\<close> of the compiled JSON schema, either an error
    of the engine or the list \<^verbatim>\<open>result.Errors()\<close> (the result is valid when it is empty);
  \<^item> \<open>Unmarshal...\<close>: \<^verbatim>\<open>json.Marshal\<close> of an argument followed by \<^verbatim>\<open>json.Unmarshal\<close>
    into the given target struct.
\<close>

record libs =
  uuid_Parse :: "string \<Rightarrow> bool"
  Validate :: "data \<Rightarrow> error + string list"
  UnmarshalCreate :: "json \<Rightarrow> CreateLaborLineInput \<Rightarrow> error + CreateLaborLineInput"
  UnmarshalUpdate :: "json \<Rightarrow> UpdateLaborLineInput \<Rightarrow> error + UpdateLaborLineInput"
  UnmarshalGet :: "json \<Rightarrow> GetLaborLineInput \<Rightarrow> error + GetLaborLineInput"
  UnmarshalList :: "json \<Rightarrow> ListLaborLinesInput \<Rightarrow> error + ListLaborLinesInput"
  UnmarshalDelete :: "json \<Rightarrow> DeleteLaborLineInput \<Rightarrow> error + DeleteLaborLineInput"

section \<open>Formatting\<close>

text \<open>\<^verbatim>\<open>%d\<close> of a slice index, and \<^verbatim>\<open>%v\<close> of a \<^verbatim>\<open>[]string\<close>.\<close>

definition digit :: "nat \<Rightarrow> char" where
  "digit n = char_of (48 + n)"

fun itoa :: "nat \<Rightarrow> string" where
  "itoa n = (if n < 10 then [digit n] else itoa (n div 10) @ [digit (n mod 10)])"

declare itoa.simps [simp del]

fun join_space :: "string list \<Rightarrow> string" where
  "join_space [] = []"
| "join_space [s] = s"
| "join_space (s # t # ss) = s @ '' '' @ join_space (t # ss)"

definition sprint_strings :: "string list \<Rightarrow> string" where
  "sprint_strings ss = ''['' @ join_space ss @ '']''"

section \<open>Schema validator (package services)\<close>

text \<open>
  \<^verbatim>\<open>validateUUIDs\<close> walks the three identifier fields in the order of \<^verbatim>\<open>uuidFields\<close> and
  then the elements of \<^verbatim>\<open>partId\<close>, and returns at the first string that does not parse.
  A field whose value is absent or is not a string is skipped, as the type assertions of
  the source do.
\<close>

fun validateFields :: "(string \<Rightarrow> bool) \<Rightarrow> data \<Rightarrow> string list \<Rightarrow> error option" where
  "validateFields parse d [] = None"
| "validateFields parse d (field # rest) =
     (case d field of
        Some (VString strValue) \<Rightarrow>
          if parse strValue then validateFields parse d rest
          else Some (Errorf (''invalid UUID format for field '' @ field @ '': '' @ strValue))
      | _ \<Rightarrow> validateFields parse d rest)"

fun validateParts :: "(string \<Rightarrow> bool) \<Rightarrow> nat \<Rightarrow> string list \<Rightarrow> error option" where
  "validateParts parse i [] = None"
| "validateParts parse i (part # parts) =
     (if parse part then validateParts parse (Suc i) parts
      else Some (Errorf (''invalid UUID format for partId['' @ itoa i @ '']: '' @ part)))"

definition uuidFields :: "string list" where
  "uuidFields = [''laborLineId'', ''accountId'', ''taskId'']"

definition validateUUIDs :: "libs \<Rightarrow> data \<Rightarrow> error option" where
  "validateUUIDs L d =
     (case validateFields (uuid_Parse L) d uuidFields of
        Some err \<Rightarrow> Some err
      | None \<Rightarrow>
          (case d ''partId'' of
             Some (VStrings partArray) \<Rightarrow> validateParts (uuid_Parse L) 0 partArray
           | _ \<Rightarrow> None))"

definition validateData :: "libs \<Rightarrow> data \<Rightarrow> error option" where
  "validateData L d =
     (case validateUUIDs L d of
        Some err \<Rightarrow> Some err
      | None \<Rightarrow>
          (case Validate L d of
             Inl err \<Rightarrow> Some (Wrap ''schema validation error'' err)
           | Inr errors \<Rightarrow>
               if errors \<noteq> [] then Some (Errorf (''validation failed: '' @ sprint_strings errors))
               else None))"

text \<open>
  The two entry points build the map to validate (\<^verbatim>\<open>validationData\<close> in the source) and
  pass it to \<open>validateData\<close>. \<open>contactId\<close> is not put into it. For a create,
  \<open>tmpID\<close> is the \<^verbatim>\<open>uuid.New().String()\<close> drawn as a placeholder.
\<close>

definition with_optional :: "string \<Rightarrow> string list option \<Rightarrow> data \<Rightarrow> data" where
  "with_optional key slice d = (case slice of None \<Rightarrow> d | Some xs \<Rightarrow> d(key \<mapsto> VStrings xs))"

definition createValidationData :: "string \<Rightarrow> CreateLaborLineInput \<Rightarrow> data" where
  "createValidationData tmpID input =
     with_optional ''notes'' (cNotes input)
       (with_optional ''partId'' (cPartID input)
         [''laborLineId'' \<mapsto> VString tmpID,
          ''accountId'' \<mapsto> VString (cAccountID input),
          ''taskId'' \<mapsto> VString (cTaskID input)])"

definition ValidateCreateInput :: "libs \<Rightarrow> string \<Rightarrow> CreateLaborLineInput \<Rightarrow> error option" where
  "ValidateCreateInput L tmpID input = validateData L (createValidationData tmpID input)"

definition updateValidationData :: "UpdateLaborLineInput \<Rightarrow> data" where
  "updateValidationData input =
     with_optional ''notes'' (uNotes input)
       (with_optional ''partId'' (uPartID input)
         [''laborLineId'' \<mapsto> VString (uLaborLineID input),
          ''accountId'' \<mapsto> VString (uAccountID input),
          ''taskId'' \<mapsto> VString (uTaskID input)])"

definition ValidateUpdateInput :: "libs \<Rightarrow> UpdateLaborLineInput \<Rightarrow> error option" where
  "ValidateUpdateInput L input = validateData L (updateValidationData input)"

section \<open>DynamoDB table and client\<close>

text \<open>
  The table is the list of its items. An item is written as the record its attribute map
  decodes to; its primary key is the pair of its \<open>PK\<close> and \<open>SK\<close> attributes. Under the
  \<^verbatim>\<open>omitempty\<close> tag a nil \<open>partId\<close>, \<open>notes\<close> or \<open>deletedAt\<close> is no attribute at all,
  and an empty list is stored as an empty list, so an item decodes to the record that
  was marshalled.
\<close>

type_synonym table = "LaborLine list"

definition item_key :: "LaborLine \<Rightarrow> string \<times> string" where
  "item_key item = (PK item, SK item)"

definition MarshalMap :: "LaborLine \<Rightarrow> error + LaborLine" where
  "MarshalMap ll = Inr ll"

definition UnmarshalMap :: "LaborLine \<Rightarrow> error + LaborLine" where
  "UnmarshalMap item = Inr item"

definition lookup :: "table \<Rightarrow> string \<times> string \<Rightarrow> LaborLine option" where
  "lookup t key = find (\<lambda>item. item_key item = key) t"

fun store :: "table \<Rightarrow> LaborLine \<Rightarrow> table" where
  "store [] item = [item]"
| "store (i # t) item = (if item_key i = item_key item then item # t else i # store t item)"

text \<open>
  The three condition expressions of the source, evaluated by DynamoDB against the item
  currently stored under the key of the item being written:
  \<^item> \<^verbatim>\<open>attribute_not_exists(PK) AND attribute_not_exists(SK)\<close>
  \<^item> \<^verbatim>\<open>attribute_exists(PK) AND attribute_exists(SK)\<close>
  \<^item> \<^verbatim>\<open>attribute_exists(PK) AND attribute_exists(SK) AND attribute_not_exists(deletedAt)\<close>
\<close>

datatype condition = KeyNotExists | KeyExists | KeyExistsNotDeleted

fun condition_holds :: "condition \<Rightarrow> LaborLine option \<Rightarrow> bool" where
  "condition_holds KeyNotExists cur = (cur = None)"
| "condition_holds KeyExists cur = (cur \<noteq> None)"
| "condition_holds KeyExistsNotDeleted cur =
     (case cur of None \<Rightarrow> False | Some item \<Rightarrow> DeletedAt item = None)"

text \<open>
  Every call of the client may fail for a reason of its own (network, throttling): the
  \<open>fault\<close> argument is that failure, if any, and a failed call leaves the table as it is.
  \<open>Query\<close> answers with the items of the partition, restricted to the sort keys that
  begin with the prefix when one is given, in the order of the list; the source reads
  one answer of \<open>Query\<close> and no further page.
\<close>

definition GetItem :: "error option \<Rightarrow> table \<Rightarrow> string \<times> string \<Rightarrow> error + LaborLine option" where
  "GetItem fault t key = (case fault of Some err \<Rightarrow> Inl err | None \<Rightarrow> Inr (lookup t key))"

definition PutItem :: "error option \<Rightarrow> table \<Rightarrow> LaborLine \<Rightarrow> condition \<Rightarrow> error option \<times> table" where
  "PutItem fault t item cond =
     (case fault of
        Some err \<Rightarrow> (Some err, t)
      | None \<Rightarrow>
          if condition_holds cond (lookup t (item_key item)) then (None, store t item)
          else (Some ConditionalCheckFailedException, t))"

definition begins_with :: "string \<Rightarrow> string \<Rightarrow> bool" where
  "begins_with s p = (take (length p) s = p)"

definition Query :: "error option \<Rightarrow> table \<Rightarrow> string \<Rightarrow> string option \<Rightarrow> error + LaborLine list" where
  "Query fault t pk skPrefix =
     (case fault of
        Some err \<Rightarrow> Inl err
      | None \<Rightarrow>
          Inr (filter (\<lambda>item. PK item = pk \<and>
                 (case skPrefix of None \<Rightarrow> True | Some p \<Rightarrow> begins_with (SK item) p)) t))"

section \<open>Persistence adapter (package services)\<close>

definition CreateLaborLine :: "error option \<Rightarrow> table \<Rightarrow> LaborLine \<Rightarrow> error option \<times> table" where
  "CreateLaborLine fault t laborLine =
     (case MarshalMap laborLine of
        Inl err \<Rightarrow> (Some (Wrap ''marshaling labor line'' err), t)
      | Inr item \<Rightarrow>
          (case PutItem fault t item KeyNotExists of
             (Some err, t') \<Rightarrow> (Some (Wrap ''creating labor line in DynamoDB'' err), t')
           | (None, t') \<Rightarrow> (None, t')))"

definition GetLaborLine :: "error option \<Rightarrow> table \<Rightarrow> GetLaborLineInput \<Rightarrow> error + LaborLine option" where
  "GetLaborLine fault t input =
     (let pk = gAccountID input;
          sk = gTaskID input @ ''#'' @ gLaborLineID input
      in case GetItem fault t (pk, sk) of
           Inl err \<Rightarrow> Inl (Wrap ''getting labor line from DynamoDB'' err)
         | Inr None \<Rightarrow> Inr None
         | Inr (Some item) \<Rightarrow>
             (case UnmarshalMap item of
                Inl err \<Rightarrow> Inl (Wrap ''unmarshaling labor line'' err)
              | Inr laborLine \<Rightarrow>
                  if IsDeleted laborLine then Inr None else Inr (Some laborLine)))"

definition UpdateLaborLine ::
  "error option \<Rightarrow> error option \<Rightarrow> table \<Rightarrow> LaborLine \<Rightarrow> error option \<times> table" where
  "UpdateLaborLine getFault putFault t laborLine =
     (case GetLaborLine getFault t
             \<lparr>gAccountID = AccountID laborLine, gTaskID = TaskID laborLine,
              gLaborLineID = LaborLineID laborLine\<rparr> of
        Inl err \<Rightarrow> (Some (Wrap ''checking existing labor line'' err), t)
      | Inr None \<Rightarrow> (Some (Errorf ''labor line not found''), t)
      | Inr (Some existing) \<Rightarrow>
          (case MarshalMap (laborLine\<lparr>CreatedAt := CreatedAt existing\<rparr>) of
             Inl err \<Rightarrow> (Some (Wrap ''marshaling labor line'' err), t)
           | Inr item \<Rightarrow>
               (case PutItem putFault t item KeyExistsNotDeleted of
                  (Some err, t') \<Rightarrow> (Some (Wrap ''updating labor line in DynamoDB'' err), t')
                | (None, t') \<Rightarrow> (None, t'))))"

definition DeleteLaborLine ::
  "error option \<Rightarrow> error option \<Rightarrow> int \<Rightarrow> table \<Rightarrow> DeleteLaborLineInput \<Rightarrow> error option \<times> table" where
  "DeleteLaborLine getFault putFault now t input =
     (case GetLaborLine getFault t
             \<lparr>gAccountID = dAccountID input, gTaskID = dTaskID input,
              gLaborLineID = dLaborLineID input\<rparr> of
        Inl err \<Rightarrow> (Some (Wrap ''checking existing labor line'' err), t)
      | Inr None \<Rightarrow> (Some (Errorf ''labor line not found''), t)
      | Inr (Some existing) \<Rightarrow>
          (case MarshalMap (SoftDelete now existing) of
             Inl err \<Rightarrow> (Some (Wrap ''marshaling labor line for deletion'' err), t)
           | Inr item \<Rightarrow>
               (case PutItem putFault t item KeyExists of
                  (Some err, t') \<Rightarrow> (Some (Wrap ''soft deleting labor line in DynamoDB'' err), t')
                | (None, t') \<Rightarrow> (None, t'))))"

fun skipDeleted :: "LaborLine list \<Rightarrow> error + LaborLine list" where
  "skipDeleted [] = Inr []"
| "skipDeleted (item # items) =
     (case UnmarshalMap item of
        Inl err \<Rightarrow> Inl (Wrap ''unmarshaling labor line'' err)
      | Inr laborLine \<Rightarrow>
          (case skipDeleted items of
             Inl err \<Rightarrow> Inl err
           | Inr laborLines \<Rightarrow>
               if \<not> IsDeleted laborLine then Inr (laborLine # laborLines) else Inr laborLines))"

definition ListLaborLines :: "error option \<Rightarrow> table \<Rightarrow> ListLaborLinesInput \<Rightarrow> error + LaborLine list" where
  "ListLaborLines fault t input =
     (case (if lTaskID input \<noteq> []
            then Query fault t (lAccountID input) (Some (lTaskID input @ ''#''))
            else Query fault t (lAccountID input) None) of
        Inl err \<Rightarrow> Inl (Wrap ''querying labor lines from DynamoDB'' err)
      | Inr items \<Rightarrow> skipDeleted items)"

section \<open>Events and responses (package models)\<close>

text \<open>
  Of the event the handler reads \<^verbatim>\<open>Info.FieldName\<close>, \<^verbatim>\<open>Info.ParentTypeName\<close> (for the
  log only) and \<^verbatim>\<open>Arguments\<close>. \<^verbatim>\<open>Data\<close> is an \<^verbatim>\<open>interface{}\<close>: a pointer to a record
  (nil when a re-fetch found nothing), a slice of records, or the success map of a delete.
\<close>

record AppSyncInfo =
  FieldName :: string
  ParentTypeName :: string

record AppSyncEvent =
  Arguments :: "string \<rightharpoonup> json"
  Info :: AppSyncInfo

record AppSyncError =
  Message :: string
  Type :: string

datatype payload =
    DataLaborLine "LaborLine option"
  | DataLaborLines "LaborLine list"
  | DataDeleted

record AppSyncResponse =
  Data :: "payload option"
  Error :: "AppSyncError option"

definition GetArgumentAs ::
  "(json \<Rightarrow> 'a \<Rightarrow> error + 'a) \<Rightarrow> AppSyncEvent \<Rightarrow> string \<Rightarrow> 'a \<Rightarrow> error + 'a" where
  "GetArgumentAs unmarshal e key target =
     (case Arguments e key of
        Some arg \<Rightarrow> unmarshal arg target
      | None \<Rightarrow> Inr target)"

definition GetInputArgument ::
  "(json \<Rightarrow> 'a \<Rightarrow> error + 'a) \<Rightarrow> AppSyncEvent \<Rightarrow> 'a \<Rightarrow> error + 'a" where
  "GetInputArgument unmarshal e target = GetArgumentAs unmarshal e ''input'' target"

section \<open>Operation dispatcher (package handler)\<close>

text \<open>
  What one invocation draws from outside: the clock reading \<open>now\<close>
  (\<^verbatim>\<open>time.Now().Unix()\<close>), the placeholder identifier \<open>tmpID\<close> of the create validator and
  the identifier \<open>newID\<close> of the new record (two calls of \<^verbatim>\<open>uuid.New()\<close>), and
  \<open>fault k\<close>, the failure, if any, of the invocation's \<open>k\<close>-th call of the DynamoDB client.
\<close>

record draws =
  now :: int
  tmpID :: string
  newID :: string
  fault :: "nat \<Rightarrow> error option"

definition failure :: "string \<Rightarrow> string \<Rightarrow> AppSyncResponse" where
  "failure message type = \<lparr>Data = None, Error = Some \<lparr>Message = message, Type = type\<rparr>\<rparr>"

text \<open>
  A handler returns the Go pair of a response and an error as \<open>error + AppSyncResponse\<close>,
  together with the table after the call.
\<close>

definition handleCreate ::
  "libs \<Rightarrow> draws \<Rightarrow> table \<Rightarrow> AppSyncEvent \<Rightarrow> (error + AppSyncResponse) \<times> table" where
  "handleCreate L d t event =
     (case GetInputArgument (UnmarshalCreate L) event zeroCreateLaborLineInput of
        Inl err \<Rightarrow> (Inr (failure (''invalid input: '' @ Error_string err) ''ValidationError''), t)
      | Inr input \<Rightarrow>
          (case ValidateCreateInput L (tmpID d) input of
             Some err \<Rightarrow>
               (Inr (failure (''validation failed: '' @ Error_string err) ''ValidationError''), t)
           | None \<Rightarrow>
               (let laborLine = NewLaborLine (now d) (newID d) input
                in case CreateLaborLine (fault d 0) t laborLine of
                     (Some err, t') \<Rightarrow>
                       (Inr (failure ''failed to create labor line'' ''InternalError''), t')
                   | (None, t') \<Rightarrow>
                       (Inr \<lparr>Data = Some (DataLaborLine (Some laborLine)), Error = None\<rparr>, t'))))"

definition handleUpdate ::
  "libs \<Rightarrow> draws \<Rightarrow> table \<Rightarrow> AppSyncEvent \<Rightarrow> (error + AppSyncResponse) \<times> table" where
  "handleUpdate L d t event =
     (case GetInputArgument (UnmarshalUpdate L) event zeroUpdateLaborLineInput of
        Inl err \<Rightarrow> (Inr (failure (''invalid input: '' @ Error_string err) ''ValidationError''), t)
      | Inr input \<Rightarrow>
          (case ValidateUpdateInput L input of
             Some err \<Rightarrow>
               (Inr (failure (''validation failed: '' @ Error_string err) ''ValidationError''), t)
           | None \<Rightarrow>
               (let laborLine = ToLaborLine (now d) input
                in case UpdateLaborLine (fault d 0) (fault d 1) t laborLine of
                     (Some err, t') \<Rightarrow>
                       (Inr (failure ''failed to update labor line'' ''InternalError''), t')
                   | (None, t') \<Rightarrow>
                       (case GetLaborLine (fault d 2) t'
                               \<lparr>gAccountID = uAccountID input, gTaskID = uTaskID input,
                                gLaborLineID = uLaborLineID input\<rparr> of
                          Inl err \<Rightarrow>
                            (Inr (failure ''failed to retrieve updated labor line''
                                    ''InternalError''), t')
                        | Inr updatedLaborLine \<Rightarrow>
                            (Inr \<lparr>Data = Some (DataLaborLine updatedLaborLine), Error = None\<rparr>,
                             t')))))"

definition handleDelete ::
  "libs \<Rightarrow> draws \<Rightarrow> table \<Rightarrow> AppSyncEvent \<Rightarrow> (error + AppSyncResponse) \<times> table" where
  "handleDelete L d t event =
     (case GetInputArgument (UnmarshalDelete L) event zeroDeleteLaborLineInput of
        Inl err \<Rightarrow> (Inr (failure (''invalid input: '' @ Error_string err) ''ValidationError''), t)
      | Inr input \<Rightarrow>
          (case DeleteLaborLine (fault d 0) (fault d 1) (now d) t input of
             (Some err, t') \<Rightarrow>
               (Inr (failure ''failed to delete labor line'' ''InternalError''), t')
           | (None, t') \<Rightarrow> (Inr \<lparr>Data = Some DataDeleted, Error = None\<rparr>, t')))"

definition handleGet ::
  "libs \<Rightarrow> draws \<Rightarrow> table \<Rightarrow> AppSyncEvent \<Rightarrow> (error + AppSyncResponse) \<times> table" where
  "handleGet L d t event =
     (case GetInputArgument (UnmarshalGet L) event zeroGetLaborLineInput of
        Inl err \<Rightarrow> (Inr (failure (''invalid input: '' @ Error_string err) ''ValidationError''), t)
      | Inr input \<Rightarrow>
          (case GetLaborLine (fault d 0) t input of
             Inl err \<Rightarrow> (Inr (failure ''failed to get labor line'' ''InternalError''), t)
           | Inr None \<Rightarrow> (Inr (failure ''labor line not found'' ''NotFound''), t)
           | Inr (Some laborLine) \<Rightarrow>
               (Inr \<lparr>Data = Some (DataLaborLine (Some laborLine)), Error = None\<rparr>, t)))"

definition handleList ::
  "libs \<Rightarrow> draws \<Rightarrow> table \<Rightarrow> AppSyncEvent \<Rightarrow> (error + AppSyncResponse) \<times> table" where
  "handleList L d t event =
     (case GetInputArgument (UnmarshalList L) event zeroListLaborLinesInput of
        Inl err \<Rightarrow> (Inr (failure (''invalid input: '' @ Error_string err) ''ValidationError''), t)
      | Inr input \<Rightarrow>
          (case ListLaborLines (fault d 0) t input of
             Inl err \<Rightarrow> (Inr (failure ''failed to list labor lines'' ''InternalError''), t)
           | Inr laborLines \<Rightarrow>
               (Inr \<lparr>Data = Some (DataLaborLines laborLines), Error = None\<rparr>, t)))"

definition HandleAppSyncEvent ::
  "libs \<Rightarrow> draws \<Rightarrow> table \<Rightarrow> AppSyncEvent \<Rightarrow> (error + AppSyncResponse) \<times> table" where
  "HandleAppSyncEvent L d t event =
     (let fieldName = FieldName (Info event)
      in if fieldName = ''createLaborLine'' then handleCreate L d t event
         else if fieldName = ''updateLaborLine'' then handleUpdate L d t event
         else if fieldName = ''deleteLaborLine'' then handleDelete L d t event
         else if fieldName = ''getLaborLine'' then handleGet L d t event
         else if fieldName = ''listLaborLines'' then handleList L d t event
         else (Inr (failure (''unsupported operation: '' @ fieldName) ''UnsupportedOperation''),
               t))"

text \<open>
  A history of the service: the invocations it has served, oldest first, each with what
  it drew. \<open>run\<close> is the table they leave behind.
\<close>

fun run :: "libs \<Rightarrow> table \<Rightarrow> (draws \<times> AppSyncEvent) list \<Rightarrow> table" where
  "run L t [] = t"
| "run L t ((d, event) # rest) = run L (snd (HandleAppSyncEvent L d t event)) rest"

section \<open>An instance of the imported packages\<close>

text \<open>
  The theorems below hold for every \<open>libs\<close>. For evaluation on concrete inputs this
  instance follows the packages the repository imports:
  \<^item> \<^verbatim>\<open>uuid.Parse\<close> of \<^verbatim>\<open>github.com/google/uuid\<close>: the hyphenated form of 36 characters,
    the same behind \<^verbatim>\<open>urn:uuid:\<close> (in either case) or between two enclosing characters,
    and 32 hexadecimal digits; digits in either case.
  \<^item> the JSON-schema engine on the embedded schema: the three required identifier
    strings of format \<open>uuid\<close> (lower-case hexadecimal digits), \<open>partId\<close> an array of
    such strings with unique items, \<open>notes\<close> an array of strings of 1 to 1000
    characters; a violation is reported as \<open>field: description\<close>. The engine visits the
    properties of the schema in no fixed order; this instance visits them in the order
    of the schema text.
  \<^item> \<^verbatim>\<open>json.Unmarshal\<close> into a struct: a member of the object sets the field whose tag
    equals its key up to the case of letters; \<open>null\<close> leaves a string as it is and makes
    a slice nil; members no field matches are ignored; the error is that of the first
    member of the wrong type. A \<open>JObject\<close> lists its members in the order
    \<^verbatim>\<open>json.Marshal\<close> writes a map, by ascending key.
\<close>

definition is_hex :: "char \<Rightarrow> bool" where
  "is_hex c = (c \<in> set ''0123456789abcdefABCDEF'')"

definition is_lower_hex :: "char \<Rightarrow> bool" where
  "is_lower_hex c = (c \<in> set ''0123456789abcdef'')"

fun uuid_groups :: "(char \<Rightarrow> bool) \<Rightarrow> nat list \<Rightarrow> string \<Rightarrow> bool" where
  "uuid_groups hexdigit [] s = False"
| "uuid_groups hexdigit [n] s = (length s = n \<and> list_all hexdigit s)"
| "uuid_groups hexdigit (n # m # ns) s =
     (length (take n s) = n \<and> list_all hexdigit (take n s) \<and> take 1 (drop n s) = ''-'' \<and>
      uuid_groups hexdigit (m # ns) (drop (Suc n) s))"

definition hyphenated :: "(char \<Rightarrow> bool) \<Rightarrow> string \<Rightarrow> bool" where
  "hyphenated hexdigit s = uuid_groups hexdigit [8, 4, 4, 4, 12] s"

definition ascii_lower :: "char \<Rightarrow> char" where
  "ascii_lower c =
     (case map_of (zip ''ABCDEFGHIJKLMNOPQRSTUVWXYZ'' ''abcdefghijklmnopqrstuvwxyz'') c of
        Some l \<Rightarrow> l
      | None \<Rightarrow> c)"

definition fold_eq :: "string \<Rightarrow> string \<Rightarrow> bool" where
  "fold_eq a b = (map ascii_lower a = map ascii_lower b)"

definition google_uuid_Parse :: "string \<Rightarrow> bool" where
  "google_uuid_Parse s =
     (if length s = 36 then hyphenated is_hex s
      else if length s = 36 + 9 then fold_eq (take 9 s) ''urn:uuid:'' \<and> hyphenated is_hex (drop 9 s)
      else if length s = 36 + 2 then hyphenated is_hex (take 36 (drop 1 s))
      else if length s = 32 then list_all is_hex s
      else False)"

definition format_uuid :: "string \<Rightarrow> bool" where
  "format_uuid s = hyphenated is_lower_hex s"

definition quoted :: "string \<Rightarrow> string" where
  "quoted s = [CHR 0x27] @ s @ [CHR 0x27]"

definition format_errors :: "data \<Rightarrow> string \<Rightarrow> string list" where
  "format_errors d field =
     (case d field of
        None \<Rightarrow> [''(root): '' @ field @ '' is required'']
      | Some (VString s) \<Rightarrow>
          if format_uuid s then [] else [field @ '': Does not match format '' @ quoted ''uuid'']
      | Some (VStrings xs) \<Rightarrow> [field @ '': Invalid type. Expected: string, given: array''])"

fun item_errors :: "(string \<Rightarrow> string list) \<Rightarrow> string \<Rightarrow> nat \<Rightarrow> string list \<Rightarrow> string list" where
  "item_errors check field i [] = []"
| "item_errors check field i (x # xs) =
     map (\<lambda>m. field @ ''.'' @ itoa i @ '': '' @ m) (check x) @ item_errors check field (Suc i) xs"

definition uuid_item :: "string \<Rightarrow> string list" where
  "uuid_item s = (if format_uuid s then [] else [''Does not match format '' @ quoted ''uuid''])"

definition note_item :: "string \<Rightarrow> string list" where
  "note_item s =
     (if length s < 1 then [''String length must be greater than or equal to 1'']
      else if 1000 < length s then [''String length must be less than or equal to 1000'']
      else [])"

text \<open>
  \<open>uniqueItems\<close>: an item equal to an earlier one is reported with the index of the
  latest earlier occurrence and its own.
\<close>

definition earlier_index :: "string list \<Rightarrow> nat \<Rightarrow> nat option" where
  "earlier_index xs j =
     (case filter (\<lambda>i. xs ! i = xs ! j) (rev [0..<j]) of [] \<Rightarrow> None | i # _ \<Rightarrow> Some i)"

definition unique_errors :: "string \<Rightarrow> string list \<Rightarrow> string list" where
  "unique_errors field xs =
     concat (map (\<lambda>j. case earlier_index xs j of
                         None \<Rightarrow> []
                       | Some i \<Rightarrow>
                           [field @ '': array items['' @ itoa i @ '','' @ itoa j @
                            ''] must be unique''])
               [0..<length xs])"

definition array_errors ::
  "data \<Rightarrow> string \<Rightarrow> (string \<Rightarrow> string list) \<Rightarrow> bool \<Rightarrow> string list" where
  "array_errors d field check uniqueItems =
     (case d field of
        None \<Rightarrow> []
      | Some (VString s) \<Rightarrow> [field @ '': Invalid type. Expected: array, given: string'']
      | Some (VStrings xs) \<Rightarrow>
          item_errors check field 0 xs @ (if uniqueItems then unique_errors field xs else []))"

definition labor_line_schema :: "data \<Rightarrow> error + string list" where
  "labor_line_schema d =
     Inr (format_errors d ''laborLineId'' @ format_errors d ''accountId'' @
          format_errors d ''taskId'' @ array_errors d ''partId'' uuid_item True @
          array_errors d ''notes'' note_item False)"

fun json_kind :: "json \<Rightarrow> string" where
  "json_kind JNull = ''null''"
| "json_kind (JBool b) = ''bool''"
| "json_kind (JNumber n) = ''number''"
| "json_kind (JString s) = ''string''"
| "json_kind (JArray xs) = ''array''"
| "json_kind (JObject kvs) = ''object''"

definition field_error :: "string \<Rightarrow> string \<Rightarrow> string \<Rightarrow> json \<Rightarrow> error" where
  "field_error struct field type v =
     LibraryError (''json: cannot unmarshal '' @ json_kind v @ '' into Go struct field '' @
                   struct @ ''.'' @ field @ '' of type '' @ type)"

fun first_some :: "('a \<Rightarrow> 'b option) \<Rightarrow> 'a list \<Rightarrow> 'b option" where
  "first_some f [] = None"
| "first_some f (x # xs) = (case f x of Some y \<Rightarrow> Some y | None \<Rightarrow> first_some f xs)"

definition element_error :: "string \<Rightarrow> string \<Rightarrow> json \<Rightarrow> error option" where
  "element_error struct field v =
     (case v of
        JString s \<Rightarrow> None
      | JNull \<Rightarrow> None
      | _ \<Rightarrow> Some (field_error struct field ''string'' v))"

definition member_error ::
  "string \<Rightarrow> string list \<Rightarrow> string list \<Rightarrow> string \<times> json \<Rightarrow> error option" where
  "member_error struct strings slices kv =
     (case find (fold_eq (fst kv)) strings of
        Some field \<Rightarrow>
          (case snd kv of
             JString s \<Rightarrow> None
           | JNull \<Rightarrow> None
           | v \<Rightarrow> Some (field_error struct field ''string'' v))
      | None \<Rightarrow>
          (case find (fold_eq (fst kv)) slices of
             Some field \<Rightarrow>
               (case snd kv of
                  JArray xs \<Rightarrow> first_some (element_error struct field) xs
                | JNull \<Rightarrow> None
                | v \<Rightarrow> Some (field_error struct field ''[]string'' v))
           | None \<Rightarrow> None))"

fun set_string :: "string \<Rightarrow> string \<Rightarrow> (string \<times> json) list \<Rightarrow> string" where
  "set_string field cur [] = cur"
| "set_string field cur ((k, v) # rest) =
     set_string field
       (if fold_eq k field then (case v of JString s \<Rightarrow> s | _ \<Rightarrow> cur) else cur) rest"

definition element_string :: "json \<Rightarrow> string" where
  "element_string v = (case v of JString s \<Rightarrow> s | _ \<Rightarrow> [])"

fun set_slice ::
  "string \<Rightarrow> string list option \<Rightarrow> (string \<times> json) list \<Rightarrow> string list option" where
  "set_slice field cur [] = cur"
| "set_slice field cur ((k, v) # rest) =
     set_slice field
       (if fold_eq k field
        then (case v of
                JArray xs \<Rightarrow> Some (map element_string xs)
              | JNull \<Rightarrow> None
              | _ \<Rightarrow> cur)
        else cur) rest"

definition into_struct ::
  "string \<Rightarrow> string list \<Rightarrow> string list \<Rightarrow> json \<Rightarrow> 'a \<Rightarrow> ((string \<times> json) list \<Rightarrow> 'a) \<Rightarrow>
   error + 'a" where
  "into_struct struct strings slices v target build =
     (case v of
        JNull \<Rightarrow> Inr target
      | JObject obj \<Rightarrow>
          (case first_some (member_error struct strings slices) obj of
             Some err \<Rightarrow> Inl err
           | None \<Rightarrow> Inr (build obj))
      | _ \<Rightarrow>
          Inl (LibraryError (''json: cannot unmarshal '' @ json_kind v @
                             '' into Go value of type models.'' @ struct)))"

definition json_UnmarshalCreate :: "json \<Rightarrow> CreateLaborLineInput \<Rightarrow> error + CreateLaborLineInput" where
  "json_UnmarshalCreate v target =
     into_struct ''CreateLaborLineInput'' [''contactId'', ''accountId'', ''taskId'']
       [''partId'', ''notes''] v target
       (\<lambda>obj. \<lparr>cContactID = set_string ''contactId'' (cContactID target) obj,
               cAccountID = set_string ''accountId'' (cAccountID target) obj,
               cTaskID = set_string ''taskId'' (cTaskID target) obj,
               cPartID = set_slice ''partId'' (cPartID target) obj,
               cNotes = set_slice ''notes'' (cNotes target) obj\<rparr>)"

definition json_UnmarshalUpdate :: "json \<Rightarrow> UpdateLaborLineInput \<Rightarrow> error + UpdateLaborLineInput" where
  "json_UnmarshalUpdate v target =
     into_struct ''UpdateLaborLineInput''
       [''laborLineId'', ''contactId'', ''accountId'', ''taskId''] [''partId'', ''notes'']
       v target
       (\<lambda>obj. \<lparr>uLaborLineID = set_string ''laborLineId'' (uLaborLineID target) obj,
               uContactID = set_string ''contactId'' (uContactID target) obj,
               uAccountID = set_string ''accountId'' (uAccountID target) obj,
               uTaskID = set_string ''taskId'' (uTaskID target) obj,
               uPartID = set_slice ''partId'' (uPartID target) obj,
               uNotes = set_slice ''notes'' (uNotes target) obj\<rparr>)"

definition json_UnmarshalGet :: "json \<Rightarrow> GetLaborLineInput \<Rightarrow> error + GetLaborLineInput" where
  "json_UnmarshalGet v target =
     into_struct ''GetLaborLineInput'' [''accountId'', ''taskId'', ''laborLineId''] [] v target
       (\<lambda>obj. \<lparr>gAccountID = set_string ''accountId'' (gAccountID target) obj,
               gTaskID = set_string ''taskId'' (gTaskID target) obj,
               gLaborLineID = set_string ''laborLineId'' (gLaborLineID target) obj\<rparr>)"

definition json_UnmarshalList :: "json \<Rightarrow> ListLaborLinesInput \<Rightarrow> error + ListLaborLinesInput" where
  "json_UnmarshalList v target =
     into_struct ''ListLaborLinesInput'' [''accountId'', ''taskId''] [] v target
       (\<lambda>obj. \<lparr>lAccountID = set_string ''accountId'' (lAccountID target) obj,
               lTaskID = set_string ''taskId'' (lTaskID target) obj\<rparr>)"

definition json_UnmarshalDelete :: "json \<Rightarrow> DeleteLaborLineInput \<Rightarrow> error + DeleteLaborLineInput" where
  "json_UnmarshalDelete v target =
     into_struct ''DeleteLaborLineInput'' [''accountId'', ''taskId'', ''laborLineId''] [] v target
       (\<lambda>obj. \<lparr>dAccountID = set_string ''accountId'' (dAccountID target) obj,
               dTaskID = set_string ''taskId'' (dTaskID target) obj,
               dLaborLineID = set_string ''laborLineId'' (dLaborLineID target) obj\<rparr>)"

definition stdlibs :: libs where
  "stdlibs =
     \<lparr>uuid_Parse = google_uuid_Parse,
      Validate = labor_line_schema,
      UnmarshalCreate = json_UnmarshalCreate,
      UnmarshalUpdate = json_UnmarshalUpdate,
      UnmarshalGet = json_UnmarshalGet,
      UnmarshalList = json_UnmarshalList,
      UnmarshalDelete = json_UnmarshalDelete\<rparr>"

section \<open>Derived notions and sample data\<close>

text \<open>
  The derived-key invariant of a record, and the records a response carries.
\<close>

definition key_consistent :: "LaborLine \<Rightarrow> bool" where
  "key_consistent ll = (PK ll = AccountID ll \<and> SK ll = TaskID ll @ ''#'' @ LaborLineID ll)"

fun payload_records :: "payload \<Rightarrow> LaborLine list" where
  "payload_records (DataLaborLine None) = []"
| "payload_records (DataLaborLine (Some ll)) = [ll]"
| "payload_records (DataLaborLines lls) = lls"
| "payload_records DataDeleted = []"

definition response_records :: "AppSyncResponse \<Rightarrow> LaborLine list" where
  "response_records resp = (case Data resp of None \<Rightarrow> [] | Some p \<Rightarrow> payload_records p)"



text \<open>Sample identifiers, draws, events and records for concrete evaluation.\<close>

definition acct1 :: string where
  "acct1 = ''11111111-1111-1111-1111-111111111111''"

definition task1 :: string where
  "task1 = ''22222222-2222-2222-2222-222222222222''"

definition line1 :: string where
  "line1 = ''33333333-3333-3333-3333-333333333333''"

definition tmp1 :: string where
  "tmp1 = ''44444444-4444-4444-4444-444444444444''"

definition quiet :: "int \<Rightarrow> draws" where
  "quiet n = \<lparr>now = n, tmpID = tmp1, newID = line1, fault = (\<lambda>k. None)\<rparr>"

definition request :: "string \<Rightarrow> (string \<times> json) list \<Rightarrow> AppSyncEvent" where
  "request fieldName obj =
     \<lparr>Arguments = [''input'' \<mapsto> JObject obj],
      Info = \<lparr>FieldName = fieldName, ParentTypeName = ''Mutation''\<rparr>\<rparr>"

definition create1 :: AppSyncEvent where
  "create1 = request ''createLaborLine''
     [(''accountId'', JString acct1), (''contactId'', JString ''anyone''),
      (''notes'', JArray [JString ''n1'']), (''taskId'', JString task1)]"

definition update1 :: AppSyncEvent where
  "update1 = request ''updateLaborLine''
     [(''accountId'', JString acct1), (''contactId'', JString ''someone else''),
      (''laborLineId'', JString line1), (''notes'', JArray [JString ''n2'']),
      (''taskId'', JString task1)]"

definition delete1 :: AppSyncEvent where
  "delete1 = request ''deleteLaborLine''
     [(''accountId'', JString acct1), (''laborLineId'', JString line1),
      (''taskId'', JString task1)]"

definition get1 :: AppSyncEvent where
  "get1 = request ''getLaborLine''
     [(''accountId'', JString acct1), (''laborLineId'', JString line1),
      (''taskId'', JString task1)]"

definition list1 :: AppSyncEvent where
  "list1 = request ''listLaborLines'' [(''accountId'', JString acct1)]"




text \<open>An update that sends the empty string as \<open>contactId\<close>.\<close>

definition update_blank :: AppSyncEvent where
  "update_blank = request ''updateLaborLine''
     [(''accountId'', JString acct1), (''contactId'', JString []),
      (''laborLineId'', JString line1), (''notes'', JArray [JString ''n2'']),
      (''taskId'', JString task1)]"

text \<open>
  Create inputs: one with a malformed \<open>accountId\<close>, a malformed second \<open>partId\<close> and an
  empty note; one with only the last two; one whose identifiers are well-formed and
  whose two notes are empty. An update input with a malformed identifier and an empty
  note.
\<close>

definition both_wrong :: CreateLaborLineInput where
  "both_wrong =
     \<lparr>cContactID = ''anyone'', cAccountID = ''not-a-uuid'', cTaskID = task1,
      cPartID = Some [acct1, ''zzz''], cNotes = Some [[]]\<rparr>"

definition part_wrong :: CreateLaborLineInput where
  "part_wrong =
     \<lparr>cContactID = ''anyone'', cAccountID = acct1, cTaskID = task1,
      cPartID = Some [acct1, ''zzz''], cNotes = Some [[]]\<rparr>"

definition notes_wrong :: CreateLaborLineInput where
  "notes_wrong =
     \<lparr>cContactID = ''anyone'', cAccountID = acct1, cTaskID = task1,
      cPartID = Some [acct1], cNotes = Some [[], []]\<rparr>"

definition update_wrong :: UpdateLaborLineInput where
  "update_wrong =
     \<lparr>uLaborLineID = ''not-a-uuid'', uContactID = ''anyone'', uAccountID = acct1,
      uTaskID = task1, uPartID = None, uNotes = Some [[]]\<rparr>"

definition live1 :: LaborLine where
  "live1 =
     \<lparr>LaborLineID = line1, ContactID = ''anyone'', AccountID = acct1, TaskID = task1,
      PartID = None, Notes = Some [''n1''], CreatedAt = 100, UpdatedAt = 100,
      DeletedAt = None, PK = acct1, SK = task1 @ ''#'' @ line1\<rparr>"

definition dead1 :: LaborLine where
  "dead1 = live1\<lparr>DeletedAt := Some 200, UpdatedAt := 200\<rparr>"

definition bare_get :: AppSyncEvent where
  "bare_get = \<lparr>Arguments = Map.empty,
      Info = \<lparr>FieldName = ''getLaborLine'', ParentTypeName = ''Query''\<rparr>\<rparr>"

section \<open>The table\<close>

lemma lookup_key: "lookup t k = Some item \<Longrightarrow> item_key item = k"
  by (auto simp: lookup_def find_Some_iff)

lemma lookup_mem: "lookup t k = Some item \<Longrightarrow> item \<in> set t"
  by (auto simp: lookup_def find_Some_iff)

lemma lookup_store_same: "lookup (store t item) (item_key item) = Some item"
  by (induction t) (auto simp: lookup_def)

lemma lookup_store_other: "k \<noteq> item_key item \<Longrightarrow> lookup (store t item) k = lookup t k"
  by (induction t) (auto simp: lookup_def)

lemma set_store: "set (store t item) \<subseteq> insert item (set t)"
  by (induction t) auto

lemma GetLaborLine_Some:
  "GetLaborLine f t input = Inr (Some ll) \<longleftrightarrow>
     f = None \<and>
     lookup t (gAccountID input, gTaskID input @ ''#'' @ gLaborLineID input) = Some ll \<and>
     DeletedAt ll = None"
  by (auto simp: GetLaborLine_def GetItem_def UnmarshalMap_def IsDeleted_def Let_def
      split: option.splits sum.splits)

lemma GetLaborLine_None:
  "GetLaborLine f t input = Inr None \<longleftrightarrow>
     f = None \<and>
     (case lookup t (gAccountID input, gTaskID input @ ''#'' @ gLaborLineID input) of
        None \<Rightarrow> True
      | Some item \<Rightarrow> DeletedAt item \<noteq> None)"
  by (auto simp: GetLaborLine_def GetItem_def UnmarshalMap_def IsDeleted_def Let_def
      split: option.splits sum.splits)

lemma GetLaborLine_Inl:
  "GetLaborLine f t input = Inl err \<longleftrightarrow>
     (\<exists>e. f = Some e \<and> err = Wrap ''getting labor line from DynamoDB'' e)"
  by (auto simp: GetLaborLine_def GetItem_def UnmarshalMap_def IsDeleted_def Let_def
      split: option.splits sum.splits)

lemma skipDeleted_eq: "skipDeleted items = Inr (filter (\<lambda>ll. DeletedAt ll = None) items)"
  by (induction items) (auto simp: UnmarshalMap_def IsDeleted_def)

section \<open>The persistence adapter\<close>

lemma item_key_CreatedAt [simp]: "item_key (ll\<lparr>CreatedAt := c\<rparr>) = item_key ll"
  by (simp add: item_key_def)

lemma item_key_SoftDelete [simp]: "item_key (SoftDelete n ll) = item_key ll"
  by (simp add: item_key_def SoftDelete_def)

lemma PutItem_ok:
  "PutItem f t item c = (None, t') \<longleftrightarrow>
     f = None \<and> condition_holds c (lookup t (item_key item)) \<and> t' = store t item"
  by (cases f) (auto simp: PutItem_def)

lemma PutItem_err: "PutItem f t item c = (Some e, t') \<Longrightarrow> t' = t"
  by (cases f) (auto simp: PutItem_def split: if_splits)

lemma CreateLaborLine_eq:
  "CreateLaborLine f t ll =
     (case PutItem f t ll KeyNotExists of
        (None, t') \<Rightarrow> (None, t')
      | (Some err, t') \<Rightarrow> (Some (Wrap ''creating labor line in DynamoDB'' err), t'))"
  by (simp add: CreateLaborLine_def MarshalMap_def split: prod.splits option.splits)

lemma CreateLaborLine_ok:
  "CreateLaborLine f t ll = (None, t') \<longleftrightarrow>
     f = None \<and> lookup t (item_key ll) = None \<and> t' = store t ll"
proof -
  obtain r t1 where p: "PutItem f t ll KeyNotExists = (r, t1)" by force
  have "CreateLaborLine f t ll = (None, t') \<longleftrightarrow> r = None \<and> t1 = t'"
    by (cases r) (simp_all add: CreateLaborLine_eq p)
  also have "\<dots> \<longleftrightarrow> PutItem f t ll KeyNotExists = (None, t')"
    by (auto simp: p)
  finally show ?thesis
    by (auto simp: PutItem_ok)
qed

lemma CreateLaborLine_err: "CreateLaborLine f t ll = (Some e, t') \<Longrightarrow> t' = t"
proof -
  obtain r t1 where p: "PutItem f t ll KeyNotExists = (r, t1)" by force
  assume "CreateLaborLine f t ll = (Some e, t')"
  with p have "t1 = t'" "r \<noteq> None"
    by (cases r; simp add: CreateLaborLine_eq)+
  with p show ?thesis
    using PutItem_err by blast
qed

lemma UpdateLaborLine_found:
  assumes "lookup t (AccountID ll, TaskID ll @ ''#'' @ LaborLineID ll) = Some old"
    "DeletedAt old = None"
  shows "UpdateLaborLine None pf t ll =
     (case PutItem pf t ((ll\<lparr>CreatedAt := CreatedAt old\<rparr>)) KeyExistsNotDeleted of
        (None, t') \<Rightarrow> (None, t')
      | (Some err, t') \<Rightarrow> (Some (Wrap ''updating labor line in DynamoDB'' err), t'))"
proof -
  have "GetLaborLine None t \<lparr>gAccountID = AccountID ll, gTaskID = TaskID ll,
      gLaborLineID = LaborLineID ll\<rparr> = Inr (Some old)"
    using assms by (simp add: GetLaborLine_Some)
  then show ?thesis
    by (simp add: UpdateLaborLine_def MarshalMap_def split: prod.splits option.splits)
qed

lemma UpdateLaborLine_ok:
  "UpdateLaborLine gf pf t ll = (None, t') \<longleftrightarrow>
     gf = None \<and> pf = None \<and>
     (\<exists>old. lookup t (AccountID ll, TaskID ll @ ''#'' @ LaborLineID ll) = Some old \<and>
        DeletedAt old = None \<and>
        condition_holds KeyExistsNotDeleted (lookup t (item_key ll)) \<and>
        t' = store t ((ll\<lparr>CreatedAt := CreatedAt old\<rparr>)))"
  (is "?lhs \<longleftrightarrow> ?rhs")
proof
  assume l: ?lhs
  let ?g = "GetLaborLine gf t \<lparr>gAccountID = AccountID ll, gTaskID = TaskID ll,
      gLaborLineID = LaborLineID ll\<rparr>"
  from l obtain old where o: "?g = Inr (Some old)"
    by (cases ?g) (auto simp: UpdateLaborLine_def split: option.splits)
  then have g: "gf = None"
    "lookup t (AccountID ll, TaskID ll @ ''#'' @ LaborLineID ll) = Some old" "DeletedAt old = None"
    by (simp_all add: GetLaborLine_Some)
  obtain r t1 where p: "PutItem pf t ((ll\<lparr>CreatedAt := CreatedAt old\<rparr>))
      KeyExistsNotDeleted = (r, t1)" by force
  from l have "r = None \<and> t1 = t'"
    unfolding g(1) UpdateLaborLine_found [OF g(2,3)] p by (cases r) simp_all
  with p have "PutItem pf t ((ll\<lparr>CreatedAt := CreatedAt old\<rparr>))
      KeyExistsNotDeleted = (None, t')" by simp
  then have "pf = None \<and> condition_holds KeyExistsNotDeleted (lookup t (item_key ll)) \<and>
      t' = store t ((ll\<lparr>CreatedAt := CreatedAt old\<rparr>))"
    by (simp add: PutItem_ok)
  with g show ?rhs by blast
next
  assume ?rhs
  then obtain old where g: "gf = None" "pf = None"
    "lookup t (AccountID ll, TaskID ll @ ''#'' @ LaborLineID ll) = Some old" "DeletedAt old = None"
    "condition_holds KeyExistsNotDeleted (lookup t (item_key ll))"
    "t' = store t ((ll\<lparr>CreatedAt := CreatedAt old\<rparr>))"
    by blast
  have "PutItem None t ((ll\<lparr>CreatedAt := CreatedAt old\<rparr>)) KeyExistsNotDeleted = (None, t')"
    using g(5,6) by (simp add: PutItem_ok)
  then show ?lhs
    unfolding g(1,2) UpdateLaborLine_found [OF g(3,4)] by simp
qed

lemma UpdateLaborLine_err: "UpdateLaborLine gf pf t ll = (Some e, t') \<Longrightarrow> t' = t"
proof -
  assume a: "UpdateLaborLine gf pf t ll = (Some e, t')"
  let ?g = "GetLaborLine gf t \<lparr>gAccountID = AccountID ll, gTaskID = TaskID ll,
      gLaborLineID = LaborLineID ll\<rparr>"
  show ?thesis
  proof (cases "\<exists>old. ?g = Inr (Some old)")
    case False
    with a show ?thesis
      by (cases ?g) (auto simp: UpdateLaborLine_def split: option.splits)
  next
    case True
    then obtain old where "?g = Inr (Some old)" by blast
    then have g: "gf = None"
      "lookup t (AccountID ll, TaskID ll @ ''#'' @ LaborLineID ll) = Some old" "DeletedAt old = None"
      by (simp_all add: GetLaborLine_Some)
    obtain r t1 where p: "PutItem pf t ((ll\<lparr>CreatedAt := CreatedAt old\<rparr>))
        KeyExistsNotDeleted = (r, t1)" by force
    from a have "r \<noteq> None \<and> t1 = t'"
      unfolding g(1) UpdateLaborLine_found [OF g(2,3)] p by (cases r) simp_all
    with p show ?thesis using PutItem_err by blast
  qed
qed


lemma DeleteLaborLine_found:
  assumes "lookup t (dAccountID input, dTaskID input @ ''#'' @ dLaborLineID input) = Some old"
    "DeletedAt old = None"
  shows "DeleteLaborLine None pf n t input =
     (case PutItem pf t ((SoftDelete n old)) KeyExists of
        (None, t') \<Rightarrow> (None, t')
      | (Some err, t') \<Rightarrow> (Some (Wrap ''soft deleting labor line in DynamoDB'' err), t'))"
proof -
  have "GetLaborLine None t \<lparr>gAccountID = dAccountID input, gTaskID = dTaskID input,
      gLaborLineID = dLaborLineID input\<rparr> = Inr (Some old)"
    using assms by (simp add: GetLaborLine_Some)
  then show ?thesis
    by (simp add: DeleteLaborLine_def MarshalMap_def split: prod.splits option.splits)
qed

lemma DeleteLaborLine_absent:
  assumes "GetLaborLine gf t \<lparr>gAccountID = dAccountID input, gTaskID = dTaskID input,
      gLaborLineID = dLaborLineID input\<rparr> = Inr None"
  shows "DeleteLaborLine gf pf n t input = (Some (Errorf ''labor line not found''), t)"
  using assms by (simp add: DeleteLaborLine_def)

lemma DeleteLaborLine_ok:
  "DeleteLaborLine gf pf n t input = (None, t') \<longleftrightarrow>
     gf = None \<and> pf = None \<and>
     (\<exists>old. lookup t (dAccountID input, dTaskID input @ ''#'' @ dLaborLineID input) = Some old \<and>
        DeletedAt old = None \<and> t' = store t ((SoftDelete n old)))"
  (is "?lhs \<longleftrightarrow> ?rhs")
proof
  assume l: ?lhs
  let ?g = "GetLaborLine gf t \<lparr>gAccountID = dAccountID input, gTaskID = dTaskID input,
      gLaborLineID = dLaborLineID input\<rparr>"
  from l obtain old where o: "?g = Inr (Some old)"
    by (cases ?g) (auto simp: DeleteLaborLine_def split: option.splits)
  then have g: "gf = None"
    "lookup t (dAccountID input, dTaskID input @ ''#'' @ dLaborLineID input) = Some old"
    "DeletedAt old = None"
    by (simp_all add: GetLaborLine_Some)
  obtain r t1 where p: "PutItem pf t ((SoftDelete n old)) KeyExists = (r, t1)" by force
  from l have "r = None \<and> t1 = t'"
    unfolding g(1) DeleteLaborLine_found [OF g(2,3)] p by (cases r) simp_all
  with p have "PutItem pf t ((SoftDelete n old)) KeyExists = (None, t')" by simp
  then have "pf = None \<and> t' = store t ((SoftDelete n old))"
    by (simp add: PutItem_ok)
  with g show ?rhs by blast
next
  assume ?rhs
  then obtain old where g: "gf = None" "pf = None"
    "lookup t (dAccountID input, dTaskID input @ ''#'' @ dLaborLineID input) = Some old"
    "DeletedAt old = None" "t' = store t ((SoftDelete n old))"
    by blast
  have "lookup t (item_key old) = Some old"
    using g(3) lookup_key by fastforce
  then have "PutItem None t ((SoftDelete n old)) KeyExists = (None, t')"
    using g(5) by (simp add: PutItem_ok)
  then show ?lhs
    unfolding g(1,2) DeleteLaborLine_found [OF g(3,4)] by simp
qed

lemma DeleteLaborLine_err: "DeleteLaborLine gf pf n t input = (Some e, t') \<Longrightarrow> t' = t"
proof -
  assume a: "DeleteLaborLine gf pf n t input = (Some e, t')"
  let ?g = "GetLaborLine gf t \<lparr>gAccountID = dAccountID input, gTaskID = dTaskID input,
      gLaborLineID = dLaborLineID input\<rparr>"
  show ?thesis
  proof (cases "\<exists>old. ?g = Inr (Some old)")
    case False
    with a show ?thesis
      by (cases ?g) (auto simp: DeleteLaborLine_def split: option.splits)
  next
    case True
    then obtain old where "?g = Inr (Some old)" by blast
    then have g: "gf = None"
      "lookup t (dAccountID input, dTaskID input @ ''#'' @ dLaborLineID input) = Some old"
      "DeletedAt old = None"
      by (simp_all add: GetLaborLine_Some)
    obtain r t1 where p: "PutItem pf t ((SoftDelete n old)) KeyExists = (r, t1)" by force
    from a have "r \<noteq> None \<and> t1 = t'"
      unfolding g(1) DeleteLaborLine_found [OF g(2,3)] p by (cases r) simp_all
    with p show ?thesis using PutItem_err by blast
  qed
qed

section \<open>What each handler does\<close>

lemma failure_records [simp]: "response_records (failure m ty) = []"
  by (simp add: response_records_def failure_def)

lemma handleCreate_effect:
  assumes "handleCreate L d t event = (r, t')"
  shows "(t' = t \<and> (\<exists>m ty. r = Inr (failure m ty))) \<or>
    (\<exists>input. GetInputArgument (UnmarshalCreate L) event zeroCreateLaborLineInput = Inr input \<and>
       ValidateCreateInput L (tmpID d) input = None \<and>
       r = Inr \<lparr>Data = Some (DataLaborLine (Some (NewLaborLine (now d) (newID d) input))),
                Error = None\<rparr> \<and>
       t' = store t ((NewLaborLine (now d) (newID d) input)))"
proof (cases "GetInputArgument (UnmarshalCreate L) event zeroCreateLaborLineInput")
  case (Inl e)
  with assms show ?thesis by (auto simp: handleCreate_def Let_def)
next
  case (Inr input)
  show ?thesis
  proof (cases "ValidateCreateInput L (tmpID d) input")
    case (Some e)
    with Inr assms show ?thesis by (auto simp: handleCreate_def Let_def)
  next
    case None
    obtain e t1 where c: "CreateLaborLine (fault d 0) t (NewLaborLine (now d) (newID d) input) = (e, t1)"
      by force
    show ?thesis
    proof (cases e)
      case None
      with c have "t1 = store t ((NewLaborLine (now d) (newID d) input))"
        by (simp add: CreateLaborLine_ok)
      with assms Inr \<open>ValidateCreateInput L (tmpID d) input = None\<close> c None show ?thesis
        by (auto simp: handleCreate_def Let_def)
    next
      case (Some err)
      with c have "t1 = t" using CreateLaborLine_err by blast
      with assms Inr \<open>ValidateCreateInput L (tmpID d) input = None\<close> c Some show ?thesis
        by (auto simp: handleCreate_def Let_def)
    qed
  qed
qed

lemma handleUpdate_effect:
  assumes "handleUpdate L d t event = (r, t')"
  shows "(t' = t \<and> (\<exists>m ty. r = Inr (failure m ty))) \<or>
    (\<exists>input old.
       GetInputArgument (UnmarshalUpdate L) event zeroUpdateLaborLineInput = Inr input \<and>
       ValidateUpdateInput L input = None \<and>
       lookup t (uAccountID input, uTaskID input @ ''#'' @ uLaborLineID input) = Some old \<and>
       DeletedAt old = None \<and> fault d 0 = None \<and> fault d 1 = None \<and>
       t' = store t (((ToLaborLine (now d) input)\<lparr>CreatedAt := CreatedAt old\<rparr>)) \<and>
       (\<forall>err. GetLaborLine (fault d 2) t'
               \<lparr>gAccountID = uAccountID input, gTaskID = uTaskID input,
                gLaborLineID = uLaborLineID input\<rparr> = Inl err \<longrightarrow>
          r = Inr (failure ''failed to retrieve updated labor line'' ''InternalError'')) \<and>
       (\<forall>x. GetLaborLine (fault d 2) t'
               \<lparr>gAccountID = uAccountID input, gTaskID = uTaskID input,
                gLaborLineID = uLaborLineID input\<rparr> = Inr x \<longrightarrow>
          r = Inr \<lparr>Data = Some (DataLaborLine x), Error = None\<rparr>))"
proof (cases "GetInputArgument (UnmarshalUpdate L) event zeroUpdateLaborLineInput")
  case (Inl e)
  with assms show ?thesis by (auto simp: handleUpdate_def Let_def)
next
  case (Inr input)
  show ?thesis
  proof (cases "ValidateUpdateInput L input")
    case (Some e)
    with Inr assms show ?thesis by (auto simp: handleUpdate_def Let_def)
  next
    case None
    note v = None
    obtain e t1 where c: "UpdateLaborLine (fault d 0) (fault d 1) t (ToLaborLine (now d) input) = (e, t1)"
      by force
    show ?thesis
    proof (cases e)
      case None
      with c obtain old where o: "fault d 0 = None" "fault d 1 = None"
        "lookup t (uAccountID input, uTaskID input @ ''#'' @ uLaborLineID input) = Some old"
        "DeletedAt old = None"
        "t1 = store t (((ToLaborLine (now d) input)\<lparr>CreatedAt := CreatedAt old\<rparr>))"
        by (auto simp: UpdateLaborLine_ok ToLaborLine_def)
      have "t' = t1"
        using assms Inr v c None
        by (simp add: handleUpdate_def Let_def split: sum.splits)
      moreover have "\<forall>err. GetLaborLine (fault d 2) t1
               \<lparr>gAccountID = uAccountID input, gTaskID = uTaskID input,
                gLaborLineID = uLaborLineID input\<rparr> = Inl err \<longrightarrow>
          r = Inr (failure ''failed to retrieve updated labor line'' ''InternalError'')"
        using assms Inr v c None
        by (auto simp add: handleUpdate_def Let_def)
      moreover have "\<forall>x. GetLaborLine (fault d 2) t1
               \<lparr>gAccountID = uAccountID input, gTaskID = uTaskID input,
                gLaborLineID = uLaborLineID input\<rparr> = Inr x \<longrightarrow>
          r = Inr \<lparr>Data = Some (DataLaborLine x), Error = None\<rparr>"
        using assms Inr v c None
        by (auto simp add: handleUpdate_def Let_def)
      ultimately show ?thesis using Inr v o by blast
    next
      case (Some err)
      with c have "t1 = t" using UpdateLaborLine_err by blast
      with assms Inr v c Some show ?thesis
        by (auto simp: handleUpdate_def Let_def)
    qed
  qed
qed

lemma handleDelete_effect:
  assumes "handleDelete L d t event = (r, t')"
  shows "(t' = t \<and> (\<exists>m ty. r = Inr (failure m ty))) \<or>
    (\<exists>input old.
       GetInputArgument (UnmarshalDelete L) event zeroDeleteLaborLineInput = Inr input \<and>
       lookup t (dAccountID input, dTaskID input @ ''#'' @ dLaborLineID input) = Some old \<and>
       DeletedAt old = None \<and> fault d 0 = None \<and> fault d 1 = None \<and>
       t' = store t ((SoftDelete (now d) old)) \<and>
       r = Inr \<lparr>Data = Some DataDeleted, Error = None\<rparr>)"
proof (cases "GetInputArgument (UnmarshalDelete L) event zeroDeleteLaborLineInput")
  case (Inl e)
  with assms show ?thesis by (auto simp: handleDelete_def)
next
  case (Inr input)
  obtain e t1 where c: "DeleteLaborLine (fault d 0) (fault d 1) (now d) t input = (e, t1)"
    by force
  show ?thesis
  proof (cases e)
    case None
    with c obtain old where o: "fault d 0 = None" "fault d 1 = None"
      "lookup t (dAccountID input, dTaskID input @ ''#'' @ dLaborLineID input) = Some old"
      "DeletedAt old = None" "t1 = store t ((SoftDelete (now d) old))"
      by (auto simp: DeleteLaborLine_ok)
    have "t' = t1 \<and> r = Inr \<lparr>Data = Some DataDeleted, Error = None\<rparr>"
      using assms Inr c None by (auto simp: handleDelete_def)
    with Inr o show ?thesis by blast
  next
    case (Some err)
    with c have "t1 = t" using DeleteLaborLine_err by blast
    with assms Inr c Some show ?thesis
      by (auto simp: handleDelete_def)
  qed
qed

lemma handleGet_effect:
  assumes "handleGet L d t event = (r, t')"
  shows "t' = t \<and> ((\<exists>m ty. r = Inr (failure m ty)) \<or>
    (\<exists>input ll.
       GetInputArgument (UnmarshalGet L) event zeroGetLaborLineInput = Inr input \<and>
       lookup t (gAccountID input, gTaskID input @ ''#'' @ gLaborLineID input) = Some ll \<and>
       DeletedAt ll = None \<and>
       r = Inr \<lparr>Data = Some (DataLaborLine (Some ll)), Error = None\<rparr>))"
proof (cases "GetInputArgument (UnmarshalGet L) event zeroGetLaborLineInput")
  case (Inl e)
  with assms show ?thesis by (auto simp: handleGet_def)
next
  case (Inr input)
  show ?thesis
  proof (cases "GetLaborLine (fault d 0) t input")
    case (Inl e)
    with Inr assms show ?thesis by (auto simp: handleGet_def)
  next
    case g: (Inr x)
    show ?thesis
    proof (cases x)
      case None
      with g Inr assms show ?thesis by (auto simp: handleGet_def)
    next
      case (Some ll)
      with g have "lookup t (gAccountID input, gTaskID input @ ''#'' @ gLaborLineID input) = Some ll"
        "DeletedAt ll = None"
        by (simp_all add: GetLaborLine_Some)
      moreover have "t' = t \<and> r = Inr \<lparr>Data = Some (DataLaborLine (Some ll)), Error = None\<rparr>"
        using g Some Inr assms by (auto simp: handleGet_def)
      ultimately show ?thesis using Inr by blast
    qed
  qed
qed

lemma ListLaborLines_Inr:
  "ListLaborLines f t input = Inr lls \<Longrightarrow>
     set lls \<subseteq> set t \<and> (\<forall>ll \<in> set lls. DeletedAt ll = None)"
  by (cases f) (auto simp: ListLaborLines_def Query_def skipDeleted_eq split: if_splits)

lemma handleList_effect:
  assumes "handleList L d t event = (r, t')"
  shows "t' = t \<and> ((\<exists>m ty. r = Inr (failure m ty)) \<or>
    (\<exists>lls. set lls \<subseteq> set t \<and> (\<forall>ll \<in> set lls. DeletedAt ll = None) \<and>
       r = Inr \<lparr>Data = Some (DataLaborLines lls), Error = None\<rparr>))"
proof (cases "GetInputArgument (UnmarshalList L) event zeroListLaborLinesInput")
  case (Inl e)
  with assms show ?thesis by (auto simp: handleList_def)
next
  case (Inr input)
  show ?thesis
  proof (cases "ListLaborLines (fault d 0) t input")
    case (Inl e)
    with Inr assms show ?thesis by (auto simp: handleList_def)
  next
    case g: (Inr lls)
    then have "set lls \<subseteq> set t \<and> (\<forall>ll \<in> set lls. DeletedAt ll = None)"
      by (rule ListLaborLines_Inr)
    moreover have "t' = t \<and> r = Inr \<lparr>Data = Some (DataLaborLines lls), Error = None\<rparr>"
      using g Inr assms by (auto simp: handleList_def)
    ultimately show ?thesis by blast
  qed
qed

section \<open>What the dispatcher does, and what a history preserves\<close>

lemma dispatch_cases:
  "HandleAppSyncEvent L d t event = handleCreate L d t event \<or>
   HandleAppSyncEvent L d t event = handleUpdate L d t event \<or>
   HandleAppSyncEvent L d t event = handleDelete L d t event \<or>
   HandleAppSyncEvent L d t event = handleGet L d t event \<or>
   HandleAppSyncEvent L d t event = handleList L d t event \<or>
   HandleAppSyncEvent L d t event =
     (Inr (failure (''unsupported operation: '' @ FieldName (Info event))
            ''UnsupportedOperation''), t)"
  by (simp add: HandleAppSyncEvent_def Let_def)

lemma dispatch_effect:
  assumes "HandleAppSyncEvent L d t event = (r, t')" "item \<in> set t'"
  shows "item \<in> set t \<or>
    (\<exists>input. item = (NewLaborLine (now d) (newID d) input)) \<or>
    (\<exists>input old. old \<in> set t \<and>
       item = ((ToLaborLine (now d) input)\<lparr>CreatedAt := CreatedAt old\<rparr>)) \<or>
    (\<exists>old \<in> set t. item = (SoftDelete (now d) old))"
  using dispatch_cases [of L d t event]
proof (elim disjE)
  assume "HandleAppSyncEvent L d t event = handleCreate L d t event"
  with assms(1) have "handleCreate L d t event = (r, t')" by simp
  from handleCreate_effect [OF this] assms(2) set_store show ?thesis by fastforce
next
  assume "HandleAppSyncEvent L d t event = handleUpdate L d t event"
  with assms(1) have "handleUpdate L d t event = (r, t')" by simp
  from handleUpdate_effect [OF this] show ?thesis
  proof
    assume "t' = t \<and> (\<exists>m ty. r = Inr (failure m ty))"
    with assms(2) show ?thesis by simp
  next
    assume "\<exists>input old.
       GetInputArgument (UnmarshalUpdate L) event zeroUpdateLaborLineInput = Inr input \<and>
       ValidateUpdateInput L input = None \<and>
       lookup t (uAccountID input, uTaskID input @ ''#'' @ uLaborLineID input) = Some old \<and>
       DeletedAt old = None \<and> fault d 0 = None \<and> fault d 1 = None \<and>
       t' = store t (((ToLaborLine (now d) input)\<lparr>CreatedAt := CreatedAt old\<rparr>)) \<and>
       (\<forall>err. GetLaborLine (fault d 2) t'
               \<lparr>gAccountID = uAccountID input, gTaskID = uTaskID input,
                gLaborLineID = uLaborLineID input\<rparr> = Inl err \<longrightarrow>
          r = Inr (failure ''failed to retrieve updated labor line'' ''InternalError'')) \<and>
       (\<forall>x. GetLaborLine (fault d 2) t'
               \<lparr>gAccountID = uAccountID input, gTaskID = uTaskID input,
                gLaborLineID = uLaborLineID input\<rparr> = Inr x \<longrightarrow>
          r = Inr \<lparr>Data = Some (DataLaborLine x), Error = None\<rparr>)"
    then obtain input :: UpdateLaborLineInput and old where
      o: "lookup t (uAccountID input, uTaskID input @ ''#'' @ uLaborLineID input) = Some old"
      and t': "t' = store t (((ToLaborLine (now d) input)\<lparr>CreatedAt := CreatedAt old\<rparr>))"
      by auto
    from o have "old \<in> set t" by (rule lookup_mem)
    with t' assms(2) set_store show ?thesis by fastforce
  qed
next
  assume "HandleAppSyncEvent L d t event = handleDelete L d t event"
  with assms(1) have "handleDelete L d t event = (r, t')" by simp
  from handleDelete_effect [OF this] show ?thesis
  proof
    assume "t' = t \<and> (\<exists>m ty. r = Inr (failure m ty))"
    with assms(2) show ?thesis by simp
  next
    assume "\<exists>input old.
       GetInputArgument (UnmarshalDelete L) event zeroDeleteLaborLineInput = Inr input \<and>
       lookup t (dAccountID input, dTaskID input @ ''#'' @ dLaborLineID input) = Some old \<and>
       DeletedAt old = None \<and> fault d 0 = None \<and> fault d 1 = None \<and>
       t' = store t ((SoftDelete (now d) old)) \<and>
       r = Inr \<lparr>Data = Some DataDeleted, Error = None\<rparr>"
    then obtain input :: DeleteLaborLineInput and old where
      o: "lookup t (dAccountID input, dTaskID input @ ''#'' @ dLaborLineID input) = Some old"
      and t': "t' = store t ((SoftDelete (now d) old))"
      by auto
    from o have "old \<in> set t" by (rule lookup_mem)
    with t' assms(2) set_store show ?thesis by fastforce
  qed
next
  assume "HandleAppSyncEvent L d t event = handleGet L d t event"
  with assms(1) have "handleGet L d t event = (r, t')" by simp
  from handleGet_effect [OF this] assms(2) show ?thesis by simp
next
  assume "HandleAppSyncEvent L d t event = handleList L d t event"
  with assms(1) have "handleList L d t event = (r, t')" by simp
  from handleList_effect [OF this] assms(2) show ?thesis by simp
next
  assume "HandleAppSyncEvent L d t event =
     (Inr (failure (''unsupported operation: '' @ FieldName (Info event))
            ''UnsupportedOperation''), t)"
  with assms show ?thesis by simp
qed

lemma data_records [simp]:
  "response_records \<lparr>Data = Some p, Error = e\<rparr> = payload_records p"
  by (simp add: response_records_def)

lemma payload_records_get:
  "GetLaborLine f t input = Inr r \<Longrightarrow> ll \<in> set (payload_records (DataLaborLine r)) \<Longrightarrow>
     GetLaborLine f t input = Inr (Some ll)"
  by (cases r) auto

lemma dispatch_records:
  assumes "HandleAppSyncEvent L d t event = (Inr resp, t')" "ll \<in> set (response_records resp)"
  shows "DeletedAt ll = None \<and>
    (ll \<in> set t' \<or> (\<exists>input. ll = NewLaborLine (now d) (newID d) input))"
  using dispatch_cases [of L d t event]
proof (elim disjE)
  assume "HandleAppSyncEvent L d t event = handleCreate L d t event"
  with assms(1) have "handleCreate L d t event = (Inr resp, t')" by simp
  from handleCreate_effect [OF this] show ?thesis
  proof
    assume "t' = t \<and> (\<exists>m ty. Inr resp = Inr (failure m ty))"
    with assms(2) show ?thesis by auto
  next
    assume "\<exists>input. GetInputArgument (UnmarshalCreate L) event zeroCreateLaborLineInput = Inr input \<and>
       ValidateCreateInput L (tmpID d) input = None \<and>
       Inr resp = Inr \<lparr>Data = Some (DataLaborLine (Some (NewLaborLine (now d) (newID d) input))),
                Error = None\<rparr> \<and>
       t' = store t ((NewLaborLine (now d) (newID d) input))"
    then obtain input :: CreateLaborLineInput where
      "resp = \<lparr>Data = Some (DataLaborLine (Some (NewLaborLine (now d) (newID d) input))),
                Error = None\<rparr>"
      by auto
    with assms(2) have ll: "ll = NewLaborLine (now d) (newID d) input" by simp
    then have "DeletedAt ll = None" by (simp add: NewLaborLine_def)
    with ll show ?thesis by blast
  qed
next
  assume "HandleAppSyncEvent L d t event = handleUpdate L d t event"
  with assms(1) have "handleUpdate L d t event = (Inr resp, t')" by simp
  from handleUpdate_effect [OF this] show ?thesis
  proof
    assume "t' = t \<and> (\<exists>m ty. Inr resp = Inr (failure m ty))"
    with assms(2) show ?thesis by auto
  next
    assume "\<exists>input old.
       GetInputArgument (UnmarshalUpdate L) event zeroUpdateLaborLineInput = Inr input \<and>
       ValidateUpdateInput L input = None \<and>
       lookup t (uAccountID input, uTaskID input @ ''#'' @ uLaborLineID input) = Some old \<and>
       DeletedAt old = None \<and> fault d 0 = None \<and> fault d 1 = None \<and>
       t' = store t (((ToLaborLine (now d) input)\<lparr>CreatedAt := CreatedAt old\<rparr>)) \<and>
       (\<forall>err. GetLaborLine (fault d 2) t'
               \<lparr>gAccountID = uAccountID input, gTaskID = uTaskID input,
                gLaborLineID = uLaborLineID input\<rparr> = Inl err \<longrightarrow>
          Inr resp = Inr (failure ''failed to retrieve updated labor line'' ''InternalError'')) \<and>
       (\<forall>x. GetLaborLine (fault d 2) t'
               \<lparr>gAccountID = uAccountID input, gTaskID = uTaskID input,
                gLaborLineID = uLaborLineID input\<rparr> = Inr x \<longrightarrow>
          Inr resp = Inr \<lparr>Data = Some (DataLaborLine x), Error = None\<rparr>)"
    then obtain input :: UpdateLaborLineInput where
      c: "\<forall>err. GetLaborLine (fault d 2) t'
               \<lparr>gAccountID = uAccountID input, gTaskID = uTaskID input,
                gLaborLineID = uLaborLineID input\<rparr> = Inl err \<longrightarrow>
          resp = failure ''failed to retrieve updated labor line'' ''InternalError''"
        "\<forall>x. GetLaborLine (fault d 2) t'
               \<lparr>gAccountID = uAccountID input, gTaskID = uTaskID input,
                gLaborLineID = uLaborLineID input\<rparr> = Inr x \<longrightarrow>
          resp = \<lparr>Data = Some (DataLaborLine x), Error = None\<rparr>"
      by blast
    show ?thesis
    proof (cases "GetLaborLine (fault d 2) t'
               \<lparr>gAccountID = uAccountID input, gTaskID = uTaskID input,
                gLaborLineID = uLaborLineID input\<rparr>")
      case (Inl e)
      with c assms(2) show ?thesis by auto
    next
      case (Inr x)
      with c assms(2) have "ll \<in> set (payload_records (DataLaborLine x))"
        by simp
      with Inr have "GetLaborLine (fault d 2) t'
               \<lparr>gAccountID = uAccountID input, gTaskID = uTaskID input,
                gLaborLineID = uLaborLineID input\<rparr> = Inr (Some ll)"
        by (rule payload_records_get)
      then show ?thesis
        using lookup_mem by (fastforce simp: GetLaborLine_Some)
    qed
  qed
next
  assume "HandleAppSyncEvent L d t event = handleDelete L d t event"
  with assms(1) have "handleDelete L d t event = (Inr resp, t')" by simp
  from handleDelete_effect [OF this] assms(2) show ?thesis
    by auto
next
  assume "HandleAppSyncEvent L d t event = handleGet L d t event"
  with assms(1) have "handleGet L d t event = (Inr resp, t')" by simp
  from handleGet_effect [OF this] assms(2) lookup_mem show ?thesis
    by fastforce
next
  assume "HandleAppSyncEvent L d t event = handleList L d t event"
  with assms(1) have "handleList L d t event = (Inr resp, t')" by simp
  from handleList_effect [OF this] assms(2) show ?thesis
    by auto
next
  assume "HandleAppSyncEvent L d t event =
     (Inr (failure (''unsupported operation: '' @ FieldName (Info event))
            ''UnsupportedOperation''), t)"
  with assms show ?thesis by auto
qed

lemma key_consistent_NewLaborLine [simp]: "key_consistent (NewLaborLine n i input)"
  by (simp add: key_consistent_def NewLaborLine_def)

lemma key_consistent_ToLaborLine [simp]: "key_consistent (ToLaborLine n input)"
  by (simp add: key_consistent_def ToLaborLine_def)

lemma key_consistent_CreatedAt [simp]:
  "key_consistent (ll\<lparr>CreatedAt := c\<rparr>) = key_consistent ll"
  by (simp add: key_consistent_def)

lemma key_consistent_SoftDelete [simp]: "key_consistent (SoftDelete n ll) = key_consistent ll"
  by (simp add: key_consistent_def SoftDelete_def)

lemma step_key_consistent:
  assumes "\<forall>item \<in> set t. key_consistent item" "HandleAppSyncEvent L d t event = (r, t')"
  shows "\<forall>item \<in> set t'. key_consistent item"
proof
  fix item assume "item \<in> set t'"
  from dispatch_effect [OF assms(2) this] assms(1) show "key_consistent item"
    by auto
qed

lemma run_key_consistent:
  "\<forall>item \<in> set t. key_consistent item \<Longrightarrow> \<forall>item \<in> set (run L t reqs). key_consistent item"
proof (induction reqs arbitrary: t)
  case Nil
  then show ?case by simp
next
  case (Cons req reqs)
  obtain d event where req: "req = (d, event)" by (cases req)
  obtain r t' where h: "HandleAppSyncEvent L d t event = (r, t')" by force
  from step_key_consistent [OF Cons.prems h] have "\<forall>item \<in> set t'. key_consistent item" .
  from Cons.IH [OF this] show ?case by (simp add: req h)
qed

lemma step_stamp:
  assumes "HandleAppSyncEvent L d t event = (r, t')" "item \<in> set t'"
  shows "item \<in> set t \<or> UpdatedAt item = now d"
  using dispatch_effect [OF assms]
  by (auto simp: NewLaborLine_def ToLaborLine_def SoftDelete_def)

lemma run_stamps:
  "item \<in> set (run L t reqs) \<Longrightarrow> item \<in> set t \<or> UpdatedAt item \<in> set (map (now \<circ> fst) reqs)"
proof (induction reqs arbitrary: t)
  case Nil
  then show ?case by simp
next
  case (Cons req reqs)
  obtain d event where req: "req = (d, event)" by (cases req)
  obtain r t' where h: "HandleAppSyncEvent L d t event = (r, t')" by force
  from Cons.prems have "item \<in> set (run L t' reqs)" by (simp add: req h)
  from Cons.IH [OF this] step_stamp [OF h] show ?case
    by (auto simp: req)
qed

section \<open>Dispatch\<close>

text \<open>
  Claim C8. An event whose operation name is none of \<open>createLaborLine\<close>,
  \<open>updateLaborLine\<close>, \<open>deleteLaborLine\<close>, \<open>getLaborLine\<close>, \<open>listLaborLines\<close> is answered
  with a response (the Go error is nil) that carries no data and an error of type
  \<open>UnsupportedOperation\<close> naming the operation; the table is not touched.
\<close>

theorem dispatch_unsupported_operation:
  assumes "FieldName (Info event) \<notin>
     {''createLaborLine'', ''updateLaborLine'', ''deleteLaborLine'', ''getLaborLine'',
      ''listLaborLines''}"
  shows "HandleAppSyncEvent L d t event =
     (Inr \<lparr>Data = None,
           Error = Some \<lparr>Message = ''unsupported operation: '' @ FieldName (Info event),
                         Type = ''UnsupportedOperation''\<rparr>\<rparr>, t)"
  using assms by (simp add: HandleAppSyncEvent_def failure_def Let_def)

theorem dispatch_unsupported_operation_witness:
  "HandleAppSyncEvent stdlibs (quiet 7) [live1]
     \<lparr>Arguments = Map.empty,
      Info = \<lparr>FieldName = ''unsupportedOperation'', ParentTypeName = ''Query''\<rparr>\<rparr> =
   (Inr \<lparr>Data = None,
         Error = Some \<lparr>Message = ''unsupported operation: unsupportedOperation'',
                       Type = ''UnsupportedOperation''\<rparr>\<rparr>, [live1])"
  using dispatch_unsupported_operation [of
     "\<lparr>Arguments = Map.empty,
      Info = \<lparr>FieldName = ''unsupportedOperation'', ParentTypeName = ''Query''\<rparr>\<rparr>"
     stdlibs "quiet 7" "[live1]"]
  by simp

section \<open>Concrete runs\<close>

lemma create1_eval:
  "HandleAppSyncEvent stdlibs (quiet 100) [] create1 =
     (Inr \<lparr>Data = Some (DataLaborLine (Some live1)), Error = None\<rparr>, [live1])"
  by code_simp

lemma get1_dead_eval:
  "HandleAppSyncEvent stdlibs (quiet 300) [dead1] get1 =
     (Inr (failure ''labor line not found'' ''NotFound''), [dead1])"
  by code_simp

lemma get1_input:
  "GetInputArgument (UnmarshalGet stdlibs) get1 zeroGetLaborLineInput =
     Inr \<lparr>gAccountID = acct1, gTaskID = task1, gLaborLineID = line1\<rparr>"
  by code_simp

lemma lookup_dead1: "lookup [dead1] (acct1, task1 @ ''#'' @ line1) = Some dead1"
  by code_simp

lemma list1_eval:
  "HandleAppSyncEvent stdlibs (quiet 300) [dead1, live1\<lparr>SK := ''other''\<rparr>] list1 =
     (Inr \<lparr>Data = Some (DataLaborLines [live1\<lparr>SK := ''other''\<rparr>]), Error = None\<rparr>,
      [dead1, live1\<lparr>SK := ''other''\<rparr>])"
  by code_simp

lemma bare_get_lookup:
  "GetLaborLine (fault (quiet 5) 0) [live1]
      \<lparr>gAccountID = [], gTaskID = [], gLaborLineID = []\<rparr> = Inr None"
  by code_simp

lemma absent_argument:
  "Arguments event key = None \<Longrightarrow> GetArgumentAs unmarshal event key target = Inr target"
  by (simp add: GetArgumentAs_def)

section \<open>Tombstones\<close>

text \<open>
  Claim C5. Neither a get nor a list returns a record whose \<open>deletedAt\<close> is present, in
  any table: a record that \<open>GetLaborLine\<close> returns is not deleted; for a tombstoned item
  it returns not-found (nil with no error) when the client call succeeds, and the
  dispatcher then answers \<open>NotFound\<close>; every record in the result of \<open>ListLaborLines\<close> is
  not deleted; and no response of the dispatcher, for any operation, carries a deleted
  record.
\<close>

theorem tombstones_invisible:
  "(GetLaborLine f t input = Inr (Some ll) \<longrightarrow> DeletedAt ll = None) \<and>
   (lookup t (gAccountID input, gTaskID input @ ''#'' @ gLaborLineID input) = Some item \<and>
    DeletedAt item \<noteq> None \<longrightarrow>
      GetLaborLine None t input = Inr None \<and>
      (GetInputArgument (UnmarshalGet L) event zeroGetLaborLineInput = Inr input \<and>
       fault d 0 = None \<longrightarrow>
         handleGet L d t event = (Inr (failure ''labor line not found'' ''NotFound''), t))) \<and>
   (ListLaborLines f t linput = Inr lls \<longrightarrow> (\<forall>ll \<in> set lls. DeletedAt ll = None)) \<and>
   (HandleAppSyncEvent L d t event = (Inr resp, t') \<longrightarrow>
      (\<forall>ll \<in> set (response_records resp). DeletedAt ll = None))"
proof (intro conjI impI)
  show "DeletedAt ll = None" if "GetLaborLine f t input = Inr (Some ll)"
    using that by (simp add: GetLaborLine_Some)
next
  assume dead: "lookup t (gAccountID input, gTaskID input @ ''#'' @ gLaborLineID input) = Some item \<and>
    DeletedAt item \<noteq> None"
  then show none: "GetLaborLine None t input = Inr None"
    by (simp add: GetLaborLine_None)
  show "handleGet L d t event = (Inr (failure ''labor line not found'' ''NotFound''), t)"
    if "GetInputArgument (UnmarshalGet L) event zeroGetLaborLineInput = Inr input \<and> fault d 0 = None"
    using that none by (simp add: handleGet_def)
next
  show "\<forall>ll \<in> set lls. DeletedAt ll = None" if "ListLaborLines f t linput = Inr lls"
    using ListLaborLines_Inr [OF that] by blast
next
  show "\<forall>ll \<in> set (response_records resp). DeletedAt ll = None"
    if "HandleAppSyncEvent L d t event = (Inr resp, t')"
    using dispatch_records [OF that] by blast
qed

theorem tombstones_invisible_witness:
  "lookup [dead1] (acct1, task1 @ ''#'' @ line1) = Some dead1 \<and> DeletedAt dead1 \<noteq> None \<and>
   GetLaborLine None [dead1] \<lparr>gAccountID = acct1, gTaskID = task1, gLaborLineID = line1\<rparr> =
     Inr None \<and>
   handleGet stdlibs (quiet 300) [dead1] get1 =
     (Inr (failure ''labor line not found'' ''NotFound''), [dead1]) \<and>
   HandleAppSyncEvent stdlibs (quiet 300) [dead1, live1\<lparr>SK := ''other''\<rparr>] list1 =
     (Inr \<lparr>Data = Some (DataLaborLines [live1\<lparr>SK := ''other''\<rparr>]), Error = None\<rparr>,
      [dead1, live1\<lparr>SK := ''other''\<rparr>]) \<and>
   DeletedAt (live1\<lparr>SK := ''other''\<rparr>) = None"
proof -
  have dead: "DeletedAt dead1 \<noteq> None" by (simp add: dead1_def)
  have f: "fault (quiet 300) 0 = None" by (simp add: quiet_def)
  note T = tombstones_invisible [where t = "[dead1]" and item = dead1 and L = stdlibs
      and input = "\<lparr>gAccountID = acct1, gTaskID = task1, gLaborLineID = line1\<rparr>"
      and event = get1 and d = "quiet 300"]
  note U = tombstones_invisible [where t = "[dead1, live1\<lparr>SK := ''other''\<rparr>]" and L = stdlibs
      and event = list1 and d = "quiet 300"
      and resp = "\<lparr>Data = Some (DataLaborLines [live1\<lparr>SK := ''other''\<rparr>]), Error = None\<rparr>"
      and t' = "[dead1, live1\<lparr>SK := ''other''\<rparr>]"]
  from T lookup_dead1 dead f get1_input
  have "GetLaborLine None [dead1] \<lparr>gAccountID = acct1, gTaskID = task1, gLaborLineID = line1\<rparr> =
     Inr None \<and>
   handleGet stdlibs (quiet 300) [dead1] get1 =
     (Inr (failure ''labor line not found'' ''NotFound''), [dead1])"
    by simp
  moreover from U list1_eval have "DeletedAt (live1\<lparr>SK := ''other''\<rparr>) = None"
    by simp
  ultimately show ?thesis
    using lookup_dead1 dead list1_eval by blast
qed

section \<open>Decoding the input argument\<close>

text \<open>
  Claim C10. When the arguments of an event have no \<open>input\<close> key, decoding returns no
  error and leaves the target as it was, so each handler goes on with the zero value of
  its input struct (every identifier the empty string). \<open>handleGet\<close> then looks the
  empty identifiers up, and whatever it answers is not a \<open>ValidationError\<close>.
\<close>

theorem missing_input_is_zero_value:
  assumes "Arguments event ''input'' = None"
  shows "GetInputArgument unmarshal event target = Inr target \<and>
    GetInputArgument (UnmarshalGet L) event zeroGetLaborLineInput =
      Inr \<lparr>gAccountID = [], gTaskID = [], gLaborLineID = []\<rparr> \<and>
    GetInputArgument (UnmarshalDelete L) event zeroDeleteLaborLineInput =
      Inr \<lparr>dAccountID = [], dTaskID = [], dLaborLineID = []\<rparr> \<and>
    GetInputArgument (UnmarshalList L) event zeroListLaborLinesInput =
      Inr \<lparr>lAccountID = [], lTaskID = []\<rparr> \<and>
    GetInputArgument (UnmarshalCreate L) event zeroCreateLaborLineInput =
      Inr \<lparr>cContactID = [], cAccountID = [], cTaskID = [], cPartID = None, cNotes = None\<rparr> \<and>
    GetInputArgument (UnmarshalUpdate L) event zeroUpdateLaborLineInput =
      Inr \<lparr>uLaborLineID = [], uContactID = [], uAccountID = [], uTaskID = [],
           uPartID = None, uNotes = None\<rparr> \<and>
    handleGet L d t event =
      (case GetLaborLine (fault d 0) t \<lparr>gAccountID = [], gTaskID = [], gLaborLineID = []\<rparr> of
         Inl err \<Rightarrow> (Inr (failure ''failed to get labor line'' ''InternalError''), t)
       | Inr None \<Rightarrow> (Inr (failure ''labor line not found'' ''NotFound''), t)
       | Inr (Some laborLine) \<Rightarrow>
           (Inr \<lparr>Data = Some (DataLaborLine (Some laborLine)), Error = None\<rparr>, t)) \<and>
    (\<forall>resp. fst (handleGet L d t event) = Inr resp \<longrightarrow>
       map_option Type (Error resp) \<noteq> Some ''ValidationError'')"
proof -
  have any: "GetInputArgument um event tg = Inr tg" for um :: "json \<Rightarrow> 'b \<Rightarrow> error + 'b" and tg
    using assms by (simp add: GetInputArgument_def absent_argument)
  have get: "handleGet L d t event =
      (case GetLaborLine (fault d 0) t \<lparr>gAccountID = [], gTaskID = [], gLaborLineID = []\<rparr> of
         Inl err \<Rightarrow> (Inr (failure ''failed to get labor line'' ''InternalError''), t)
       | Inr None \<Rightarrow> (Inr (failure ''labor line not found'' ''NotFound''), t)
       | Inr (Some laborLine) \<Rightarrow>
           (Inr \<lparr>Data = Some (DataLaborLine (Some laborLine)), Error = None\<rparr>, t))"
    by (simp add: handleGet_def any zeroGetLaborLineInput_def)
  have ty: "map_option Type (Error resp) \<noteq> Some ''ValidationError''"
    if "fst (handleGet L d t event) = Inr resp" for resp
  proof (cases "GetLaborLine (fault d 0) t \<lparr>gAccountID = [], gTaskID = [], gLaborLineID = []\<rparr>")
    case (Inl a)
    with that get have "resp = failure ''failed to get labor line'' ''InternalError''" by simp
    then show ?thesis by (simp add: failure_def)
  next
    case (Inr b)
    show ?thesis
    proof (cases b)
      case None
      with Inr that get have "resp = failure ''labor line not found'' ''NotFound''" by simp
      then show ?thesis by (simp add: failure_def)
    next
      case (Some a)
      with Inr that get have "resp = \<lparr>Data = Some (DataLaborLine (Some a)), Error = None\<rparr>" by simp
      then show ?thesis by simp
    qed
  qed
  show ?thesis
    apply (intro conjI allI impI)
           apply (rule any)
          apply (simp only: any zeroGetLaborLineInput_def)
         apply (simp only: any zeroDeleteLaborLineInput_def)
        apply (simp only: any zeroListLaborLinesInput_def)
       apply (simp only: any zeroCreateLaborLineInput_def)
      apply (simp only: any zeroUpdateLaborLineInput_def)
     apply (rule get)
    apply (erule ty)
    done
qed

theorem missing_input_is_zero_value_witness:
  "Arguments bare_get ''input'' = None \<and>
   GetInputArgument (UnmarshalGet stdlibs) bare_get zeroGetLaborLineInput =
     Inr \<lparr>gAccountID = [], gTaskID = [], gLaborLineID = []\<rparr> \<and>
   handleGet stdlibs (quiet 5) [live1] bare_get =
     (Inr (failure ''labor line not found'' ''NotFound''), [live1])"
proof -
  have a: "Arguments bare_get ''input'' = None"
    by (simp add: bare_get_def)
  note T = missing_input_is_zero_value [OF a, of "UnmarshalGet stdlibs" zeroGetLaborLineInput
      stdlibs "quiet 5" "[live1]"]
  from T have "handleGet stdlibs (quiet 5) [live1] bare_get =
      (case GetLaborLine (fault (quiet 5) 0) [live1]
              \<lparr>gAccountID = [], gTaskID = [], gLaborLineID = []\<rparr> of
         Inl err \<Rightarrow> (Inr (failure ''failed to get labor line'' ''InternalError''), [live1])
       | Inr None \<Rightarrow> (Inr (failure ''labor line not found'' ''NotFound''), [live1])
       | Inr (Some laborLine) \<Rightarrow>
           (Inr \<lparr>Data = Some (DataLaborLine (Some laborLine)), Error = None\<rparr>, [live1]))"
    by blast
  then have "handleGet stdlibs (quiet 5) [live1] bare_get =
      (Inr (failure ''labor line not found'' ''NotFound''), [live1])"
    by (simp only: bare_get_lookup sum.case option.case)
  moreover from T have "GetInputArgument (UnmarshalGet stdlibs) bare_get zeroGetLaborLineInput =
     Inr \<lparr>gAccountID = [], gTaskID = [], gLaborLineID = []\<rparr>"
    by blast
  ultimately show ?thesis using a by blast
qed

lemma run_create1: "run stdlibs [] [(quiet 100, create1)] = [live1]"
  by code_simp

lemma get1_live_eval:
  "HandleAppSyncEvent stdlibs (quiet 120) [live1] get1 =
     (Inr \<lparr>Data = Some (DataLaborLine (Some live1)), Error = None\<rparr>, [live1])"
  by code_simp

lemma key_consistent_live1: "key_consistent live1"
  by code_simp

section \<open>Derived keys\<close>

text \<open>
  Claim C7. The derived-key invariant (partition key = \<open>accountId\<close>, sort key =
  \<open>taskId\<close>, \<open>#\<close>, identifier) holds of every record the model constructs
  (\<open>NewLaborLine\<close>, \<open>ToLaborLine\<close>), of every item of a table that the service has
  written, starting from the empty table, through any history of invocations, of every
  record in a response to an invocation on such a table and of every item the invocation
  leaves behind; and the item \<open>GetLaborLine\<close> looks up is the one whose \<open>PK\<close> and \<open>SK\<close>
  are derived from the requested \<open>accountId\<close>, \<open>taskId\<close> and identifier.
\<close>

theorem derived_key_invariant:
  "key_consistent (NewLaborLine n i cin) \<and>
   key_consistent (ToLaborLine n uin) \<and>
   (\<forall>item \<in> set (run L [] reqs). key_consistent item) \<and>
   (HandleAppSyncEvent L d (run L [] reqs) event = (Inr resp, t') \<longrightarrow>
      (\<forall>ll \<in> set (response_records resp). key_consistent ll) \<and>
      (\<forall>item \<in> set t'. key_consistent item)) \<and>
   (GetLaborLine f t gin = Inr (Some ll) \<longrightarrow>
      PK ll = gAccountID gin \<and> SK ll = gTaskID gin @ ''#'' @ gLaborLineID gin)"
proof (intro conjI impI)
  show "key_consistent (NewLaborLine n i cin)" by simp
  show "key_consistent (ToLaborLine n uin)" by simp
  show inv: "\<forall>item \<in> set (run L [] reqs). key_consistent item"
    by (rule run_key_consistent) simp
  show "PK ll = gAccountID gin" "SK ll = gTaskID gin @ ''#'' @ gLaborLineID gin"
    if "GetLaborLine f t gin = Inr (Some ll)"
    using that lookup_key [of t "(gAccountID gin, gTaskID gin @ ''#'' @ gLaborLineID gin)" ll]
    by (simp_all add: GetLaborLine_Some item_key_def)
  assume h: "HandleAppSyncEvent L d (run L [] reqs) event = (Inr resp, t')"
  from step_key_consistent [OF inv h] show t': "\<forall>item \<in> set t'. key_consistent item" .
  show "\<forall>ll \<in> set (response_records resp). key_consistent ll"
  proof
    fix ll assume "ll \<in> set (response_records resp)"
    from dispatch_records [OF h this] t' show "key_consistent ll" by auto
  qed
qed

theorem derived_key_invariant_witness:
  "run stdlibs [] [(quiet 100, create1)] = [live1] \<and>
   HandleAppSyncEvent stdlibs (quiet 120) [live1] get1 =
     (Inr \<lparr>Data = Some (DataLaborLine (Some live1)), Error = None\<rparr>, [live1]) \<and>
   key_consistent live1 \<and> PK live1 = acct1 \<and> SK live1 = task1 @ ''#'' @ line1"
proof -
  note T = derived_key_invariant [where L = stdlibs and reqs = "[(quiet 100, create1)]"
      and d = "quiet 120" and event = get1
      and resp = "\<lparr>Data = Some (DataLaborLine (Some live1)), Error = None\<rparr>" and t' = "[live1]"]
  from T have "HandleAppSyncEvent stdlibs (quiet 120) (run stdlibs [] [(quiet 100, create1)]) get1 =
      (Inr \<lparr>Data = Some (DataLaborLine (Some live1)), Error = None\<rparr>, [live1]) \<longrightarrow>
      (\<forall>ll \<in> set (response_records \<lparr>Data = Some (DataLaborLine (Some live1)), Error = None\<rparr>).
         key_consistent ll)"
    by blast
  then have "key_consistent live1"
    unfolding run_create1 by (simp add: get1_live_eval)
  moreover have "PK live1 = acct1 \<and> SK live1 = task1 @ ''#'' @ line1"
    by (simp add: live1_def)
  ultimately show ?thesis
    using run_create1 get1_live_eval by blast
qed

lemma key_ToLaborLine [simp]:
  "item_key (ToLaborLine n input) =
     (uAccountID input, uTaskID input @ ''#'' @ uLaborLineID input)"
  by (simp add: item_key_def ToLaborLine_def)

lemma handleUpdate_valid:
  assumes "GetInputArgument (UnmarshalUpdate L) event zeroUpdateLaborLineInput = Inr input"
    and "ValidateUpdateInput L input = None"
    and "lookup t (uAccountID input, uTaskID input @ ''#'' @ uLaborLineID input) = Some old"
    and "DeletedAt old = None"
    and "fault d 0 = None" "fault d 1 = None"
    and "handleUpdate L d t event = (r, t')"
  shows "t' = store t (((ToLaborLine (now d) input)\<lparr>CreatedAt := CreatedAt old\<rparr>)) \<and>
    (fault d 2 = None \<longrightarrow>
       r = Inr \<lparr>Data = Some (DataLaborLine
                 (Some (((ToLaborLine (now d) input)\<lparr>CreatedAt := CreatedAt old\<rparr>)))),
               Error = None\<rparr>)"
proof -
  let ?new = "((ToLaborLine (now d) input)\<lparr>CreatedAt := CreatedAt old\<rparr>)"
  have u: "UpdateLaborLine (fault d 0) (fault d 1) t (ToLaborLine (now d) input) =
      (None, store t ?new)"
    using assms(3,4,5,6) by (simp add: UpdateLaborLine_ok ToLaborLine_def item_key_def)
  have k: "item_key ?new = (uAccountID input, uTaskID input @ ''#'' @ uLaborLineID input)"
    by simp
  have g: "GetLaborLine None (store t ?new)
      \<lparr>gAccountID = uAccountID input, gTaskID = uTaskID input,
       gLaborLineID = uLaborLineID input\<rparr> = Inr (Some ?new)"
  proof -
    have "lookup (store t ?new) (uAccountID input, uTaskID input @ ''#'' @ uLaborLineID input) =
        Some ?new"
      using lookup_store_same [of t ?new] by (simp only: k)
    moreover have "DeletedAt ?new = None"
      by (simp add: ToLaborLine_def)
    ultimately show ?thesis
      by (simp only: GetLaborLine_Some GetLaborLineInput.simps)
  qed
  from assms(1,2,7) u have t': "t' = store t ?new"
    by (simp add: handleUpdate_def Let_def split: sum.splits)
  moreover have "r = Inr \<lparr>Data = Some (DataLaborLine (Some ?new)), Error = None\<rparr>"
    if "fault d 2 = None"
    using assms(1,2,7) u g that by (simp add: handleUpdate_def Let_def)
  ultimately show ?thesis by blast
qed

lemma update1_input:
  "GetInputArgument (UnmarshalUpdate stdlibs) update1 zeroUpdateLaborLineInput =
     Inr \<lparr>uLaborLineID = line1, uContactID = ''someone else'', uAccountID = acct1,
          uTaskID = task1, uPartID = None, uNotes = Some [''n2'']\<rparr>"
  by code_simp

lemma update1_valid:
  "ValidateUpdateInput stdlibs
     \<lparr>uLaborLineID = line1, uContactID = ''someone else'', uAccountID = acct1,
      uTaskID = task1, uPartID = None, uNotes = Some [''n2'']\<rparr> = None"
  by code_simp

lemma update1_eval:
  "HandleAppSyncEvent stdlibs (quiet 150) [live1] update1 =
     (Inr \<lparr>Data = Some (DataLaborLine (Some
        (live1\<lparr>ContactID := ''someone else'', Notes := Some [''n2''], UpdatedAt := 150\<rparr>))),
          Error = None\<rparr>,
      [live1\<lparr>ContactID := ''someone else'', Notes := Some [''n2''], UpdatedAt := 150\<rparr>])"
  by code_simp

lemma lookup_live1: "lookup [live1] (acct1, task1 @ ''#'' @ line1) = Some live1"
  by code_simp

lemma lookup_updated1:
  "lookup [live1\<lparr>ContactID := ''someone else'', Notes := Some [''n2''], UpdatedAt := 150\<rparr>]
     (acct1, task1 @ ''#'' @ line1) =
   Some (live1\<lparr>ContactID := ''someone else'', Notes := Some [''n2''], UpdatedAt := 150\<rparr>)"
  by code_simp

lemma delete1_eval:
  "HandleAppSyncEvent stdlibs (quiet 200) [live1] delete1 =
     (Inr \<lparr>Data = Some DataDeleted, Error = None\<rparr>, [dead1])"
  by code_simp

lemma delete1_again_eval:
  "HandleAppSyncEvent stdlibs (quiet 300) [dead1] delete1 =
     (Inr \<lparr>Data = None,
           Error = Some \<lparr>Message = ''failed to delete labor line'', Type = ''InternalError''\<rparr>\<rparr>,
      [dead1])"
  by code_simp

lemma delete1_input:
  "GetInputArgument (UnmarshalDelete stdlibs) delete1 zeroDeleteLaborLineInput =
     Inr \<lparr>dAccountID = acct1, dTaskID = task1, dLaborLineID = line1\<rparr>"
  by code_simp

lemma handleDelete_tombstoned:
  assumes "GetInputArgument (UnmarshalDelete L) event zeroDeleteLaborLineInput = Inr input"
    and "lookup t (dAccountID input, dTaskID input @ ''#'' @ dLaborLineID input) = Some item"
    and "DeletedAt item \<noteq> None"
  shows "handleDelete L d t event =
      (Inr (failure ''failed to delete labor line'' ''InternalError''), t)"
proof -
  obtain e t1 where c: "DeleteLaborLine (fault d 0) (fault d 1) (now d) t input = (e, t1)"
    by force
  have "e \<noteq> None"
  proof
    assume "e = None"
    with c assms(2,3) show False by (auto simp: DeleteLaborLine_ok)
  qed
  then obtain err where e: "e = Some err" by blast
  with c have "t1 = t" using DeleteLaborLine_err by blast
  with assms(1) c e show ?thesis by (simp add: handleDelete_def)
qed

section \<open>Deleting twice\<close>

text \<open>
  Claim C1, as stated, at a concrete input: the record \<open>live1\<close> is soft-deleted by one
  \<open>deleteLaborLine\<close> invocation, and a second invocation with the same
  \<open>(accountId, taskId, id)\<close> fails with a response whose error type is \<open>InternalError\<close>,
  not \<open>NotFound\<close>.
\<close>

theorem second_delete_not_reported_as_NotFound:
  "HandleAppSyncEvent stdlibs (quiet 200) [live1] delete1 =
     (Inr \<lparr>Data = Some DataDeleted, Error = None\<rparr>, [dead1]) \<and>
   HandleAppSyncEvent stdlibs (quiet 300) [dead1] delete1 =
     (Inr \<lparr>Data = None,
           Error = Some \<lparr>Message = ''failed to delete labor line'', Type = ''InternalError''\<rparr>\<rparr>,
      [dead1]) \<and>
   ''InternalError'' \<noteq> ''NotFound''"
  using delete1_eval delete1_again_eval by simp

text \<open>
  Claim C1, amended. After a delete invocation that succeeded, the item stored under the
  key of its input is tombstoned (its \<open>deletedAt\<close> is the clock reading of that
  invocation), and a second delete of the same \<open>(accountId, taskId, id)\<close> fails: the
  persistence adapter, when its lookup reaches DynamoDB, returns the error
  \<open>labor line not found\<close> and leaves the table as it is, and the dispatcher, whatever
  the second invocation draws, answers with no data and an error of type
  \<open>InternalError\<close> with message \<open>failed to delete labor line\<close>, the table unchanged.
\<close>

theorem second_delete_fails:
  assumes "FieldName (Info event) = ''deleteLaborLine''"
    and "HandleAppSyncEvent L d1 t event = (Inr resp1, t1)"
    and "Error resp1 = None"
  shows "\<exists>input item.
    GetInputArgument (UnmarshalDelete L) event zeroDeleteLaborLineInput = Inr input \<and>
    lookup t1 (dAccountID input, dTaskID input @ ''#'' @ dLaborLineID input) = Some item \<and>
    DeletedAt item = Some (now d1) \<and>
    DeleteLaborLine None pf n t1 input = (Some (Errorf ''labor line not found''), t1) \<and>
    HandleAppSyncEvent L d2 t1 event =
      (Inr \<lparr>Data = None,
            Error = Some \<lparr>Message = ''failed to delete labor line'', Type = ''InternalError''\<rparr>\<rparr>,
       t1)"
proof -
  have h1: "handleDelete L d1 t event = (Inr resp1, t1)"
    using assms(1,2) by (simp add: HandleAppSyncEvent_def)
  from handleDelete_effect [OF h1] assms(3)
  obtain input :: DeleteLaborLineInput and old where
    i: "GetInputArgument (UnmarshalDelete L) event zeroDeleteLaborLineInput = Inr input"
    and o: "lookup t (dAccountID input, dTaskID input @ ''#'' @ dLaborLineID input) = Some old"
    and t1: "t1 = store t ((SoftDelete (now d1) old))"
    by (auto simp: failure_def)
  let ?item = "(SoftDelete (now d1) old)"
  let ?key = "(dAccountID input, dTaskID input @ ''#'' @ dLaborLineID input)"
  have k: "item_key ?item = ?key"
    using lookup_key [OF o] by simp
  have l: "lookup t1 ?key = Some ?item"
    unfolding t1 using lookup_store_same [of t ?item] by (simp only: k)
  have dl: "DeletedAt ?item = Some (now d1)"
    by (simp add: SoftDelete_def)
  have "GetLaborLine None t1 \<lparr>gAccountID = dAccountID input, gTaskID = dTaskID input,
      gLaborLineID = dLaborLineID input\<rparr> = Inr None"
    using l dl by (simp add: GetLaborLine_None)
  then have a: "DeleteLaborLine None pf n t1 input = (Some (Errorf ''labor line not found''), t1)"
    by (rule DeleteLaborLine_absent)
  have "handleDelete L d2 t1 event =
      (Inr (failure ''failed to delete labor line'' ''InternalError''), t1)"
    using i l dl by (intro handleDelete_tombstoned [where item = ?item]) simp_all
  then have "HandleAppSyncEvent L d2 t1 event =
      (Inr \<lparr>Data = None,
            Error = Some \<lparr>Message = ''failed to delete labor line'', Type = ''InternalError''\<rparr>\<rparr>,
       t1)"
    using assms(1) by (simp add: HandleAppSyncEvent_def failure_def)
  with i l dl a show ?thesis by blast
qed

theorem second_delete_fails_witness:
  "FieldName (Info delete1) = ''deleteLaborLine'' \<and>
   HandleAppSyncEvent stdlibs (quiet 200) [live1] delete1 =
     (Inr \<lparr>Data = Some DataDeleted, Error = None\<rparr>, [dead1]) \<and>
   Error \<lparr>Data = Some DataDeleted, Error = None\<rparr> = None \<and>
   DeleteLaborLine None None 300 [dead1]
     \<lparr>dAccountID = acct1, dTaskID = task1, dLaborLineID = line1\<rparr> =
     (Some (Errorf ''labor line not found''), [dead1]) \<and>
   HandleAppSyncEvent stdlibs (quiet 300) [dead1] delete1 =
     (Inr \<lparr>Data = None,
           Error = Some \<lparr>Message = ''failed to delete labor line'', Type = ''InternalError''\<rparr>\<rparr>,
      [dead1])"
proof -
  have fn: "FieldName (Info delete1) = ''deleteLaborLine''"
    by (simp add: delete1_def request_def)
  have e: "Error \<lparr>Data = Some DataDeleted, Error = None\<rparr> = None" by simp
  from second_delete_fails [OF fn delete1_eval e, of None 300 "quiet 300"]
  obtain input where
    "GetInputArgument (UnmarshalDelete stdlibs) delete1 zeroDeleteLaborLineInput = Inr input"
    "DeleteLaborLine None None 300 [dead1] input = (Some (Errorf ''labor line not found''), [dead1])"
    "HandleAppSyncEvent stdlibs (quiet 300) [dead1] delete1 =
     (Inr \<lparr>Data = None,
           Error = Some \<lparr>Message = ''failed to delete labor line'', Type = ''InternalError''\<rparr>\<rparr>,
      [dead1])"
    by blast
  with delete1_input fn delete1_eval e show ?thesis by simp
qed

lemma key_NewLaborLine [simp]:
  "item_key (NewLaborLine n i input) = (cAccountID input, cTaskID input @ ''#'' @ i)"
  by (simp add: item_key_def NewLaborLine_def)

lemma CreateLaborLine_conflict:
  assumes "lookup t (item_key laborLine) = Some existing"
  shows "CreateLaborLine None t laborLine =
      (Some (Wrap ''creating labor line in DynamoDB'' ConditionalCheckFailedException), t)"
  using assms by (simp add: CreateLaborLine_eq PutItem_def)

lemma CreateLaborLine_occupied:
  assumes "lookup t (item_key laborLine) = Some existing"
  shows "\<exists>err. CreateLaborLine f t laborLine = (Some err, t)"
proof -
  obtain e t1 where c: "CreateLaborLine f t laborLine = (e, t1)" by force
  have "e \<noteq> None"
  proof
    assume "e = None"
    with c assms show False by (simp add: CreateLaborLine_ok)
  qed
  then obtain err where e: "e = Some err" by blast
  with c have "t1 = t" using CreateLaborLine_err by blast
  with c e show ?thesis by blast
qed

lemma create1_input:
  "GetInputArgument (UnmarshalCreate stdlibs) create1 zeroCreateLaborLineInput =
     Inr \<lparr>cContactID = ''anyone'', cAccountID = acct1, cTaskID = task1, cPartID = None,
          cNotes = Some [''n1'']\<rparr>"
  by code_simp

lemma create1_valid:
  "ValidateCreateInput stdlibs (tmpID (quiet 400))
     \<lparr>cContactID = ''anyone'', cAccountID = acct1, cTaskID = task1, cPartID = None,
      cNotes = Some [''n1'']\<rparr> = None"
  by code_simp

lemma lookup_new1:
  "lookup [live1]
     (PK (NewLaborLine 400 line1 \<lparr>cContactID = ''anyone'', cAccountID = acct1, cTaskID = task1,
            cPartID = None, cNotes = Some [''n1'']\<rparr>),
      SK (NewLaborLine 400 line1 \<lparr>cContactID = ''anyone'', cAccountID = acct1, cTaskID = task1,
            cPartID = None, cNotes = Some [''n1'']\<rparr>)) = Some live1"
  by code_simp

section \<open>Creating on an occupied key\<close>

text \<open>
  Claim C2. When the table already holds an item under the key \<open>(PK, SK)\<close> of the record
  to create, \<open>CreateLaborLine\<close> fails and the table, hence the item stored under that
  key, is left exactly as it was. When the write reaches DynamoDB the error is the
  failed condition \<^verbatim>\<open>attribute_not_exists(PK) AND attribute_not_exists(SK)\<close>
  (DynamoDB's \<open>ConditionalCheckFailedException\<close>, the conflict of the specification),
  wrapped by the adapter; the code has no error type of its own for it, and
  \<open>handleCreate\<close> reports the failure, like every failure of the adapter, as
  \<open>InternalError\<close>, the table again unchanged.
\<close>

theorem create_on_existing_key_fails:
  assumes "lookup t (PK laborLine, SK laborLine) = Some existing"
  shows "CreateLaborLine None t laborLine =
      (Some (Wrap ''creating labor line in DynamoDB'' ConditionalCheckFailedException), t) \<and>
    is_conditional_check_failure
      (Wrap ''creating labor line in DynamoDB'' ConditionalCheckFailedException) \<and>
    (\<exists>err. CreateLaborLine f t laborLine = (Some err, t)) \<and>
    lookup (snd (CreateLaborLine f t laborLine)) (PK laborLine, SK laborLine) = Some existing \<and>
    (GetInputArgument (UnmarshalCreate L) event zeroCreateLaborLineInput = Inr input \<and>
     ValidateCreateInput L (tmpID d) input = None \<and>
     laborLine = NewLaborLine (now d) (newID d) input \<longrightarrow>
       handleCreate L d t event =
         (Inr \<lparr>Data = None,
               Error = Some \<lparr>Message = ''failed to create labor line'',
                             Type = ''InternalError''\<rparr>\<rparr>, t))"
proof -
  have k: "lookup t (item_key laborLine) = Some existing"
    using assms by (simp add: item_key_def)
  note a = CreateLaborLine_conflict [OF k]
  from CreateLaborLine_occupied [OF k] obtain err where
    e: "CreateLaborLine f t laborLine = (Some err, t)" by blast
  have h: "handleCreate L d t event =
         (Inr \<lparr>Data = None,
               Error = Some \<lparr>Message = ''failed to create labor line'',
                             Type = ''InternalError''\<rparr>\<rparr>, t)"
    if "GetInputArgument (UnmarshalCreate L) event zeroCreateLaborLineInput = Inr input \<and>
     ValidateCreateInput L (tmpID d) input = None \<and>
     laborLine = NewLaborLine (now d) (newID d) input"
  proof -
    from CreateLaborLine_occupied [OF k, of "fault d 0"] that obtain err' where
      "CreateLaborLine (fault d 0) t (NewLaborLine (now d) (newID d) input) = (Some err', t)"
      by blast
    with that show ?thesis
      by (simp add: handleCreate_def Let_def failure_def)
  qed
  from a e h assms show ?thesis by auto
qed

theorem create_on_existing_key_fails_witness:
  "lookup [live1]
     (PK (NewLaborLine 400 line1 \<lparr>cContactID = ''anyone'', cAccountID = acct1, cTaskID = task1,
            cPartID = None, cNotes = Some [''n1'']\<rparr>),
      SK (NewLaborLine 400 line1 \<lparr>cContactID = ''anyone'', cAccountID = acct1, cTaskID = task1,
            cPartID = None, cNotes = Some [''n1'']\<rparr>)) = Some live1 \<and>
   CreateLaborLine None [live1]
     (NewLaborLine 400 line1 \<lparr>cContactID = ''anyone'', cAccountID = acct1, cTaskID = task1,
            cPartID = None, cNotes = Some [''n1'']\<rparr>) =
     (Some (Wrap ''creating labor line in DynamoDB'' ConditionalCheckFailedException), [live1]) \<and>
   handleCreate stdlibs (quiet 400) [live1] create1 =
     (Inr \<lparr>Data = None,
           Error = Some \<lparr>Message = ''failed to create labor line'', Type = ''InternalError''\<rparr>\<rparr>,
      [live1])"
proof -
  let ?input = "\<lparr>cContactID = ''anyone'', cAccountID = acct1, cTaskID = task1,
            cPartID = None, cNotes = Some [''n1'']\<rparr>"
  have n: "NewLaborLine 400 line1 ?input = NewLaborLine (now (quiet 400)) (newID (quiet 400)) ?input"
    by (simp add: quiet_def)
  note T = create_on_existing_key_fails [OF lookup_new1, where L = stdlibs and event = create1
      and input = ?input and d = "quiet 400"]
  from T create1_input create1_valid n lookup_new1 show ?thesis by blast
qed

lemma update1_early_eval:
  "HandleAppSyncEvent stdlibs (quiet 50) [live1] update1 =
     (Inr \<lparr>Data = Some (DataLaborLine (Some
        (live1\<lparr>ContactID := ''someone else'', Notes := Some [''n2''], UpdatedAt := 50\<rparr>))),
          Error = None\<rparr>,
      [live1\<lparr>ContactID := ''someone else'', Notes := Some [''n2''], UpdatedAt := 50\<rparr>])"
  by code_simp

lemma lookup_early1:
  "lookup [live1\<lparr>ContactID := ''someone else'', Notes := Some [''n2''], UpdatedAt := 50\<rparr>]
     (acct1, task1 @ ''#'' @ line1) =
   Some (live1\<lparr>ContactID := ''someone else'', Notes := Some [''n2''], UpdatedAt := 50\<rparr>)"
  by code_simp

section \<open>Updates\<close>

text \<open>
  Claim C4, as stated, at a concrete input: the table holds the record \<open>live1\<close>, not
  tombstoned, with \<open>createdAt\<close> and \<open>updatedAt\<close> 100. An \<open>updateLaborLine\<close> invocation
  that names it and reads 50 from its clock succeeds, and the record stored and
  returned afterwards has \<open>updatedAt\<close> 50, which is less than the \<open>updatedAt\<close> stored
  before. (\<open>createdAt\<close> is kept.)
\<close>

theorem update_can_lower_updatedAt:
  "lookup [live1] (acct1, task1 @ ''#'' @ line1) = Some live1 \<and>
   DeletedAt live1 = None \<and>
   HandleAppSyncEvent stdlibs (quiet 50) [live1] update1 =
     (Inr \<lparr>Data = Some (DataLaborLine (Some
        (live1\<lparr>ContactID := ''someone else'', Notes := Some [''n2''], UpdatedAt := 50\<rparr>))),
          Error = None\<rparr>,
      [live1\<lparr>ContactID := ''someone else'', Notes := Some [''n2''], UpdatedAt := 50\<rparr>]) \<and>
   lookup [live1\<lparr>ContactID := ''someone else'', Notes := Some [''n2''], UpdatedAt := 50\<rparr>]
     (acct1, task1 @ ''#'' @ line1) =
     Some (live1\<lparr>ContactID := ''someone else'', Notes := Some [''n2''], UpdatedAt := 50\<rparr>) \<and>
   CreatedAt (live1\<lparr>ContactID := ''someone else'', Notes := Some [''n2''], UpdatedAt := 50\<rparr>) =
     CreatedAt live1 \<and>
   UpdatedAt live1 = 100 \<and>
   UpdatedAt (live1\<lparr>ContactID := ''someone else'', Notes := Some [''n2''], UpdatedAt := 50\<rparr>) = 50 \<and>
   \<not> UpdatedAt live1 \<le>
     UpdatedAt (live1\<lparr>ContactID := ''someone else'', Notes := Some [''n2''], UpdatedAt := 50\<rparr>)"
  using lookup_live1 update1_early_eval lookup_early1 by (simp add: live1_def)

text \<open>
  Claim C4, amended. For an update whose input decodes and validates and names an
  existing record that is not tombstoned, and whose lookup and write reach DynamoDB,
  whatever the table holds otherwise: the record stored afterwards under the same key
  keeps the \<open>createdAt\<close> of the record stored before, is not tombstoned, and has the
  clock reading of the update as \<open>updatedAt\<close>; so its \<open>updatedAt\<close> is greater than or
  equal to the earlier one exactly when the clock of the update is not behind the
  earlier \<open>updatedAt\<close>. That is the case when the table is what a history of invocations
  has left behind, starting from the empty table, and the clock readings of the history
  followed by that of the update are in non-decreasing order. The record stored is the
  record the response carries when the re-fetch reaches DynamoDB.
\<close>

theorem update_keeps_createdAt_and_stamps_clock:
  assumes "FieldName (Info event) = ''updateLaborLine''"
    and "GetInputArgument (UnmarshalUpdate L) event zeroUpdateLaborLineInput = Inr input"
    and "ValidateUpdateInput L input = None"
    and "lookup t (uAccountID input, uTaskID input @ ''#'' @ uLaborLineID input) = Some old"
    and "DeletedAt old = None"
    and "fault d 0 = None" and "fault d 1 = None"
    and "HandleAppSyncEvent L d t event = (r, t')"
  shows "\<exists>new. lookup t' (uAccountID input, uTaskID input @ ''#'' @ uLaborLineID input) = Some new \<and>
    CreatedAt new = CreatedAt old \<and> UpdatedAt new = now d \<and> DeletedAt new = None \<and>
    (UpdatedAt old \<le> UpdatedAt new) = (UpdatedAt old \<le> now d) \<and>
    (t = run L [] reqs \<and> sorted (map (now \<circ> fst) reqs @ [now d]) \<longrightarrow>
       UpdatedAt old \<le> UpdatedAt new) \<and>
    (fault d 2 = None \<longrightarrow> r = Inr \<lparr>Data = Some (DataLaborLine (Some new)), Error = None\<rparr>)"
proof -
  let ?new = "(ToLaborLine (now d) input)\<lparr>CreatedAt := CreatedAt old\<rparr>"
  let ?key = "(uAccountID input, uTaskID input @ ''#'' @ uLaborLineID input)"
  have h: "handleUpdate L d t event = (r, t')"
    using assms(1,8) by (simp add: HandleAppSyncEvent_def)
  note v = handleUpdate_valid [OF assms(2,3,4,5,6,7) h]
  have k: "item_key ?new = ?key"
    by simp
  have l: "lookup t' ?key = Some ?new"
  proof -
    have "lookup (store t ?new) ?key = Some ?new"
      using lookup_store_same [of t ?new] by (simp only: k)
    with v show ?thesis by simp
  qed
  have f: "CreatedAt ?new = CreatedAt old" "UpdatedAt ?new = now d" "DeletedAt ?new = None"
    by (simp_all add: ToLaborLine_def)
  have le: "UpdatedAt old \<le> UpdatedAt ?new"
    if "t = run L [] reqs \<and> sorted (map (now \<circ> fst) reqs @ [now d])"
  proof -
    have "old \<in> set (run L [] reqs)" using assms(4) that by (simp add: lookup_mem)
    from run_stamps [OF this] have "UpdatedAt old \<in> set (map (now \<circ> fst) reqs)" by simp
    with that have "UpdatedAt old \<le> now d"
      by (auto simp: sorted_append)
    with f show ?thesis by simp
  qed
  have r: "fault d 2 = None \<longrightarrow> r = Inr \<lparr>Data = Some (DataLaborLine (Some ?new)), Error = None\<rparr>"
    using v by simp
  show ?thesis
  proof (intro exI [of _ ?new] conjI)
    show "lookup t' ?key = Some ?new" by (rule l)
    show "(UpdatedAt old \<le> UpdatedAt ?new) = (UpdatedAt old \<le> now d)" by (simp only: f)
    show "t = run L [] reqs \<and> sorted (map (now \<circ> fst) reqs @ [now d]) \<longrightarrow>
       UpdatedAt old \<le> UpdatedAt ?new" using le by blast
    show "fault d 2 = None \<longrightarrow> r = Inr \<lparr>Data = Some (DataLaborLine (Some ?new)), Error = None\<rparr>"
      by (rule r)
  qed (rule f)+
qed

theorem update_keeps_createdAt_and_stamps_clock_witness:
  "FieldName (Info update1) = ''updateLaborLine'' \<and>
   [live1] = run stdlibs [] [(quiet 100, create1)] \<and>
   sorted (map (now \<circ> fst) [(quiet 100, create1)] @ [now (quiet 150)]) \<and>
   lookup [live1] (acct1, task1 @ ''#'' @ line1) = Some live1 \<and>
   DeletedAt live1 = None \<and>
   fault (quiet 150) 0 = None \<and> fault (quiet 150) 1 = None \<and> fault (quiet 150) 2 = None \<and>
   HandleAppSyncEvent stdlibs (quiet 150) [live1] update1 =
     (Inr \<lparr>Data = Some (DataLaborLine (Some
        (live1\<lparr>ContactID := ''someone else'', Notes := Some [''n2''], UpdatedAt := 150\<rparr>))),
          Error = None\<rparr>,
      [live1\<lparr>ContactID := ''someone else'', Notes := Some [''n2''], UpdatedAt := 150\<rparr>]) \<and>
   lookup [live1\<lparr>ContactID := ''someone else'', Notes := Some [''n2''], UpdatedAt := 150\<rparr>]
       (acct1, task1 @ ''#'' @ line1) =
     Some (live1\<lparr>ContactID := ''someone else'', Notes := Some [''n2''], UpdatedAt := 150\<rparr>) \<and>
   CreatedAt (live1\<lparr>ContactID := ''someone else'', Notes := Some [''n2''], UpdatedAt := 150\<rparr>) =
     CreatedAt live1 \<and>
   UpdatedAt (live1\<lparr>ContactID := ''someone else'', Notes := Some [''n2''], UpdatedAt := 150\<rparr>) =
     now (quiet 150) \<and>
   UpdatedAt live1 \<le>
     UpdatedAt (live1\<lparr>ContactID := ''someone else'', Notes := Some [''n2''], UpdatedAt := 150\<rparr>)"
proof -
  let ?new = "live1\<lparr>ContactID := ''someone else'', Notes := Some [''n2''], UpdatedAt := 150\<rparr>"
  let ?input = "\<lparr>uLaborLineID = line1, uContactID = ''someone else'', uAccountID = acct1,
      uTaskID = task1, uPartID = None, uNotes = Some [''n2'']\<rparr>"
  have s: "sorted (map (now \<circ> fst) [(quiet 100, create1)] @ [now (quiet 150)])"
    by (simp add: quiet_def)
  have fn: "FieldName (Info update1) = ''updateLaborLine''"
    by (simp add: update1_def request_def)
  have l: "lookup [live1] (uAccountID ?input, uTaskID ?input @ ''#'' @ uLaborLineID ?input) =
      Some live1"
    using lookup_live1 by simp
  have dl: "DeletedAt live1 = None" by (simp add: live1_def)
  have f: "fault (quiet 150) 0 = None" "fault (quiet 150) 1 = None" "fault (quiet 150) 2 = None"
    by (simp_all add: quiet_def)
  have rc: "[live1] = run stdlibs [] [(quiet 100, create1)]"
    by (simp only: run_create1)
  from update_keeps_createdAt_and_stamps_clock
    [OF fn update1_input update1_valid l dl f(1,2) update1_eval,
     of "[(quiet 100, create1)]"]
  obtain new where n:
    "lookup [?new] (uAccountID ?input, uTaskID ?input @ ''#'' @ uLaborLineID ?input) = Some new"
    "CreatedAt new = CreatedAt live1" "UpdatedAt new = now (quiet 150)"
    "[live1] = run stdlibs [] [(quiet 100, create1)] \<and>
     sorted (map (now \<circ> fst) [(quiet 100, create1)] @ [now (quiet 150)]) \<longrightarrow>
       UpdatedAt live1 \<le> UpdatedAt new"
    by blast
  from n(1) lookup_updated1 have "new = ?new" by simp
  with n rc s have "CreatedAt ?new = CreatedAt live1" "UpdatedAt ?new = now (quiet 150)"
    "UpdatedAt live1 \<le> UpdatedAt ?new"
    by simp_all
  with fn rc s lookup_live1 dl f update1_eval lookup_updated1 show ?thesis by blast
qed

lemma lookup_empty: "lookup [] k = None"
  by (simp add: lookup_def)









section \<open>Creating a record\<close>




lemma create1_base_valid:
  "ValidateCreateInput stdlibs (tmpID (quiet 100))
     \<lparr>cContactID = acct1, cAccountID = acct1, cTaskID = task1, cPartID = None,
      cNotes = Some [''n1'']\<rparr> = None"
  by code_simp

lemma update_blank_input:
  "GetInputArgument (UnmarshalUpdate stdlibs) update_blank zeroUpdateLaborLineInput =
     Inr \<lparr>uLaborLineID = line1, uContactID = [], uAccountID = acct1,
          uTaskID = task1, uPartID = None, uNotes = Some [''n2'']\<rparr>"
  by code_simp

lemma update_base_valid:
  "ValidateUpdateInput stdlibs
     \<lparr>uLaborLineID = line1, uContactID = acct1, uAccountID = acct1,
      uTaskID = task1, uPartID = None, uNotes = Some [''n2'']\<rparr> = None"
  by code_simp

lemma update_blank_eval:
  "HandleAppSyncEvent stdlibs (quiet 150) [live1] update_blank =
     (Inr \<lparr>Data = Some (DataLaborLine (Some
        (live1\<lparr>ContactID := [], Notes := Some [''n2''], UpdatedAt := 150\<rparr>))),
          Error = None\<rparr>,
      [live1\<lparr>ContactID := [], Notes := Some [''n2''], UpdatedAt := 150\<rparr>])"
  by code_simp

lemma lookup_blank1:
  "lookup [live1\<lparr>ContactID := [], Notes := Some [''n2''], UpdatedAt := 150\<rparr>]
     (acct1, task1 @ ''#'' @ line1) =
   Some (live1\<lparr>ContactID := [], Notes := Some [''n2''], UpdatedAt := 150\<rparr>)"
  by code_simp

section \<open>The contact identifier\<close>

text \<open>
  Claim C9. Neither validator looks at \<open>contactId\<close>: replacing it by any string, the
  empty one and a malformed identifier included, leaves the outcome of
  \<open>ValidateCreateInput\<close> and of \<open>ValidateUpdateInput\<close> as it was. The string is passed
  through to storage unchanged: when an input validates, the same input with any other
  \<open>contactId\<close> is accepted as well, and
  \<^item> a \<open>createLaborLine\<close> invocation that decodes to it, on a free key and with a write
    that reaches DynamoDB, succeeds, and the record it returns and stores under the
    derived key has that \<open>contactId\<close>;
  \<^item> an \<open>updateLaborLine\<close> invocation that decodes to it and names an existing record
    that is not tombstoned, with a lookup and a write that reach DynamoDB, stores under
    the derived key a record with that \<open>contactId\<close>, and returns it when the re-fetch
    reaches DynamoDB.
\<close>

theorem contactId_not_validated:
  "ValidateCreateInput L tmp (cin\<lparr>cContactID := c\<rparr>) = ValidateCreateInput L tmp cin \<and>
   ValidateUpdateInput L (uin\<lparr>uContactID := c'\<rparr>) = ValidateUpdateInput L uin \<and>
   (FieldName (Info ce) = ''createLaborLine'' \<and>
    GetInputArgument (UnmarshalCreate L) ce zeroCreateLaborLineInput =
      Inr (cin\<lparr>cContactID := c\<rparr>) \<and>
    ValidateCreateInput L (tmpID cd) cin = None \<and>
    lookup ct (cAccountID cin, cTaskID cin @ ''#'' @ newID cd) = None \<and>
    fault cd 0 = None \<longrightarrow>
      (\<exists>ll. HandleAppSyncEvent L cd ct ce =
               (Inr \<lparr>Data = Some (DataLaborLine (Some ll)), Error = None\<rparr>, store ct ll) \<and>
            lookup (store ct ll) (cAccountID cin, cTaskID cin @ ''#'' @ newID cd) = Some ll \<and>
            ContactID ll = c)) \<and>
   (FieldName (Info ue) = ''updateLaborLine'' \<and>
    GetInputArgument (UnmarshalUpdate L) ue zeroUpdateLaborLineInput =
      Inr (uin\<lparr>uContactID := c'\<rparr>) \<and>
    ValidateUpdateInput L uin = None \<and>
    lookup ut (uAccountID uin, uTaskID uin @ ''#'' @ uLaborLineID uin) = Some old \<and>
    DeletedAt old = None \<and> fault ud 0 = None \<and> fault ud 1 = None \<longrightarrow>
      (\<exists>ll. snd (HandleAppSyncEvent L ud ut ue) = store ut ll \<and>
            lookup (store ut ll) (uAccountID uin, uTaskID uin @ ''#'' @ uLaborLineID uin) =
              Some ll \<and>
            ContactID ll = c' \<and>
            (fault ud 2 = None \<longrightarrow>
               fst (HandleAppSyncEvent L ud ut ue) =
                 Inr \<lparr>Data = Some (DataLaborLine (Some ll)), Error = None\<rparr>)))"
proof (intro conjI impI)
  show vc: "ValidateCreateInput L tmp (cin\<lparr>cContactID := c\<rparr>) = ValidateCreateInput L tmp cin"
    for tmp
    by (simp add: ValidateCreateInput_def createValidationData_def)
  show vu: "ValidateUpdateInput L (uin\<lparr>uContactID := c'\<rparr>) = ValidateUpdateInput L uin"
    by (simp add: ValidateUpdateInput_def updateValidationData_def)
  {
    assume a: "FieldName (Info ce) = ''createLaborLine'' \<and>
      GetInputArgument (UnmarshalCreate L) ce zeroCreateLaborLineInput =
        Inr (cin\<lparr>cContactID := c\<rparr>) \<and>
      ValidateCreateInput L (tmpID cd) cin = None \<and>
      lookup ct (cAccountID cin, cTaskID cin @ ''#'' @ newID cd) = None \<and>
      fault cd 0 = None"
    let ?in = "cin\<lparr>cContactID := c\<rparr>"
    let ?ll = "NewLaborLine (now cd) (newID cd) ?in"
    have v: "ValidateCreateInput L (tmpID cd) ?in = None"
      using a vc [of "tmpID cd"] by simp
    have k: "item_key ?ll = (cAccountID cin, cTaskID cin @ ''#'' @ newID cd)"
      by simp
    have cr: "CreateLaborLine (fault cd 0) ct ?ll = (None, store ct ?ll)"
      using a by (simp add: CreateLaborLine_ok)
    have h: "HandleAppSyncEvent L cd ct ce =
        (Inr \<lparr>Data = Some (DataLaborLine (Some ?ll)), Error = None\<rparr>, store ct ?ll)"
      using a v cr by (simp add: HandleAppSyncEvent_def handleCreate_def Let_def)
    have l: "lookup (store ct ?ll) (cAccountID cin, cTaskID cin @ ''#'' @ newID cd) = Some ?ll"
      using lookup_store_same [of ct ?ll] by (simp only: k)
    have "ContactID ?ll = c" by (simp add: NewLaborLine_def)
    with h l show "\<exists>ll. HandleAppSyncEvent L cd ct ce =
               (Inr \<lparr>Data = Some (DataLaborLine (Some ll)), Error = None\<rparr>, store ct ll) \<and>
            lookup (store ct ll) (cAccountID cin, cTaskID cin @ ''#'' @ newID cd) = Some ll \<and>
            ContactID ll = c"
      by blast
  }
  {
    assume a: "FieldName (Info ue) = ''updateLaborLine'' \<and>
      GetInputArgument (UnmarshalUpdate L) ue zeroUpdateLaborLineInput =
        Inr (uin\<lparr>uContactID := c'\<rparr>) \<and>
      ValidateUpdateInput L uin = None \<and>
      lookup ut (uAccountID uin, uTaskID uin @ ''#'' @ uLaborLineID uin) = Some old \<and>
      DeletedAt old = None \<and> fault ud 0 = None \<and> fault ud 1 = None"
    let ?in = "uin\<lparr>uContactID := c'\<rparr>"
    let ?ll = "(ToLaborLine (now ud) ?in)\<lparr>CreatedAt := CreatedAt old\<rparr>"
    obtain r t' where h: "handleUpdate L ud ut ue = (r, t')" by force
    have d: "GetInputArgument (UnmarshalUpdate L) ue zeroUpdateLaborLineInput = Inr ?in"
      using a by simp
    have v: "ValidateUpdateInput L ?in = None"
      using a vu by simp
    have o: "lookup ut (uAccountID ?in, uTaskID ?in @ ''#'' @ uLaborLineID ?in) = Some old"
      using a by simp
    have dl: "DeletedAt old = None" and f: "fault ud 0 = None" "fault ud 1 = None"
      using a by simp_all
    note e = handleUpdate_valid [OF d v o dl f h]
    have hh: "HandleAppSyncEvent L ud ut ue = (r, t')"
      using a h by (simp add: HandleAppSyncEvent_def)
    have k: "item_key ?ll = (uAccountID uin, uTaskID uin @ ''#'' @ uLaborLineID uin)"
      by simp
    have l: "lookup (store ut ?ll) (uAccountID uin, uTaskID uin @ ''#'' @ uLaborLineID uin) =
        Some ?ll"
      using lookup_store_same [of ut ?ll] by (simp only: k)
    have cc: "ContactID ?ll = c'" by (simp add: ToLaborLine_def)
    have s: "snd (HandleAppSyncEvent L ud ut ue) = store ut ?ll"
      using e by (simp add: hh)
    have rr: "fault ud 2 = None \<longrightarrow>
        fst (HandleAppSyncEvent L ud ut ue) =
          Inr \<lparr>Data = Some (DataLaborLine (Some ?ll)), Error = None\<rparr>"
      using e by (simp add: hh)
    from s l cc rr show "\<exists>ll. snd (HandleAppSyncEvent L ud ut ue) = store ut ll \<and>
            lookup (store ut ll) (uAccountID uin, uTaskID uin @ ''#'' @ uLaborLineID uin) =
              Some ll \<and>
            ContactID ll = c' \<and>
            (fault ud 2 = None \<longrightarrow>
               fst (HandleAppSyncEvent L ud ut ue) =
                 Inr \<lparr>Data = Some (DataLaborLine (Some ll)), Error = None\<rparr>)"
      by (intro exI [of _ ?ll] conjI)
  }
qed

theorem contactId_not_validated_witness:
  "ValidateCreateInput stdlibs tmp1
     \<lparr>cContactID = ''anyone'', cAccountID = acct1, cTaskID = task1, cPartID = None,
      cNotes = Some [''n1'']\<rparr> = None \<and>
   ValidateUpdateInput stdlibs
     \<lparr>uLaborLineID = line1, uContactID = [], uAccountID = acct1,
      uTaskID = task1, uPartID = None, uNotes = Some [''n2'']\<rparr> = None \<and>
   FieldName (Info create1) = ''createLaborLine'' \<and>
   GetInputArgument (UnmarshalCreate stdlibs) create1 zeroCreateLaborLineInput =
     Inr \<lparr>cContactID = ''anyone'', cAccountID = acct1, cTaskID = task1, cPartID = None,
          cNotes = Some [''n1'']\<rparr> \<and>
   lookup [] (acct1, task1 @ ''#'' @ line1) = None \<and>
   HandleAppSyncEvent stdlibs (quiet 100) [] create1 =
     (Inr \<lparr>Data = Some (DataLaborLine (Some live1)), Error = None\<rparr>, [live1]) \<and>
   lookup [live1] (acct1, task1 @ ''#'' @ line1) = Some live1 \<and>
   ContactID live1 = ''anyone'' \<and>
   FieldName (Info update_blank) = ''updateLaborLine'' \<and>
   GetInputArgument (UnmarshalUpdate stdlibs) update_blank zeroUpdateLaborLineInput =
     Inr \<lparr>uLaborLineID = line1, uContactID = [], uAccountID = acct1,
          uTaskID = task1, uPartID = None, uNotes = Some [''n2'']\<rparr> \<and>
   DeletedAt live1 = None \<and>
   HandleAppSyncEvent stdlibs (quiet 150) [live1] update_blank =
     (Inr \<lparr>Data = Some (DataLaborLine (Some
        (live1\<lparr>ContactID := [], Notes := Some [''n2''], UpdatedAt := 150\<rparr>))),
          Error = None\<rparr>,
      [live1\<lparr>ContactID := [], Notes := Some [''n2''], UpdatedAt := 150\<rparr>]) \<and>
   lookup [live1\<lparr>ContactID := [], Notes := Some [''n2''], UpdatedAt := 150\<rparr>]
     (acct1, task1 @ ''#'' @ line1) =
     Some (live1\<lparr>ContactID := [], Notes := Some [''n2''], UpdatedAt := 150\<rparr>) \<and>
   ContactID (live1\<lparr>ContactID := [], Notes := Some [''n2''], UpdatedAt := 150\<rparr>) = []"
proof -
  let ?cin = "\<lparr>cContactID = acct1, cAccountID = acct1, cTaskID = task1, cPartID = None,
      cNotes = Some [''n1'']\<rparr>"
  let ?uin = "\<lparr>uLaborLineID = line1, uContactID = acct1, uAccountID = acct1,
      uTaskID = task1, uPartID = None, uNotes = Some [''n2'']\<rparr>"
  let ?new = "live1\<lparr>ContactID := [], Notes := Some [''n2''], UpdatedAt := 150\<rparr>"
  note T = contactId_not_validated [where L = stdlibs and tmp = tmp1 and cin = ?cin
      and c = "''anyone''" and uin = ?uin and c' = "[]" and ce = create1 and cd = "quiet 100"
      and ct = "[]" and ue = update_blank and ud = "quiet 150" and ut = "[live1]"
      and old = live1]
  have q: "tmpID (quiet 100) = tmp1" "newID (quiet 100) = line1"
    "fault (quiet 100) 0 = None" "fault (quiet 150) 0 = None" "fault (quiet 150) 1 = None"
    "fault (quiet 150) 2 = None"
    by (simp_all add: quiet_def)
  have qf: "fault (quiet n) k = None" for n k
    by (simp add: quiet_def)
  have fc: "FieldName (Info create1) = ''createLaborLine''"
    by (simp add: create1_def request_def)
  have fu: "FieldName (Info update_blank) = ''updateLaborLine''"
    by (simp add: update_blank_def request_def)
  have dl: "DeletedAt live1 = None" by (simp add: live1_def)
  have bv: "ValidateCreateInput stdlibs tmp1 ?cin = None"
    using create1_base_valid by (simp add: q)
  from T bv have v1: "ValidateCreateInput stdlibs tmp1 (?cin\<lparr>cContactID := ''anyone''\<rparr>) = None"
    by simp
  from T update_base_valid
  have v2: "ValidateUpdateInput stdlibs (?uin\<lparr>uContactID := []\<rparr>) = None"
    by simp
  have c: "\<exists>ll. HandleAppSyncEvent stdlibs (quiet 100) [] create1 =
               (Inr \<lparr>Data = Some (DataLaborLine (Some ll)), Error = None\<rparr>, store [] ll) \<and>
            lookup (store [] ll) (acct1, task1 @ ''#'' @ line1) = Some ll \<and>
            ContactID ll = ''anyone''"
    using T fc create1_input bv lookup_empty [of "(acct1, task1 @ ''#'' @ line1)"]
    by (simp add: q)
  then obtain ll where ll:
    "HandleAppSyncEvent stdlibs (quiet 100) [] create1 =
       (Inr \<lparr>Data = Some (DataLaborLine (Some ll)), Error = None\<rparr>, store [] ll)"
    "lookup (store [] ll) (acct1, task1 @ ''#'' @ line1) = Some ll"
    "ContactID ll = ''anyone''"
    by blast
  from ll(1) create1_eval have "ll = live1" by simp
  with ll have r1: "lookup [live1] (acct1, task1 @ ''#'' @ line1) = Some live1"
    "ContactID live1 = ''anyone''"
    by simp_all
  have u: "\<exists>ll. snd (HandleAppSyncEvent stdlibs (quiet 150) [live1] update_blank) =
              store [live1] ll \<and>
            lookup (store [live1] ll) (acct1, task1 @ ''#'' @ line1) = Some ll \<and>
            ContactID ll = []"
    using T fu update_blank_input update_base_valid lookup_live1 dl
    by (auto simp add: q qf simp del: store.simps)
  then obtain nl where nl:
    "snd (HandleAppSyncEvent stdlibs (quiet 150) [live1] update_blank) = store [live1] nl"
    "lookup (store [live1] nl) (acct1, task1 @ ''#'' @ line1) = Some nl"
    "ContactID nl = []"
    by blast
  from nl(1,2) have "lookup [?new] (acct1, task1 @ ''#'' @ line1) = Some nl"
    by (simp add: update_blank_eval)
  with lookup_blank1 have "nl = ?new" by simp
  with nl have r2: "ContactID ?new = []" by simp
  from v1 have v1': "ValidateCreateInput stdlibs tmp1
     \<lparr>cContactID = ''anyone'', cAccountID = acct1, cTaskID = task1, cPartID = None,
      cNotes = Some [''n1'']\<rparr> = None" by simp
  from v2 have v2': "ValidateUpdateInput stdlibs
     \<lparr>uLaborLineID = line1, uContactID = [], uAccountID = acct1,
      uTaskID = task1, uPartID = None, uNotes = Some [''n2'']\<rparr> = None" by simp
  show ?thesis
    using v1' v2' fc create1_input lookup_empty [of "(acct1, task1 @ ''#'' @ line1)"]
      create1_eval r1 fu update_blank_input dl update_blank_eval lookup_blank1 r2
    by (intro conjI)
qed

lemma validateFields_first:
  "k < length fs \<Longrightarrow> d (fs ! k) = Some (VString s) \<Longrightarrow> \<not> parse s \<Longrightarrow>
   (\<forall>j<k. \<forall>s'. d (fs ! j) = Some (VString s') \<longrightarrow> parse s') \<Longrightarrow>
   validateFields parse d fs =
     Some (Errorf (''invalid UUID format for field '' @ fs ! k @ '': '' @ s))"
proof (induction fs arbitrary: k)
  case Nil
  then show ?case by simp
next
  case (Cons f fs)
  show ?case
  proof (cases k)
    case 0
    with Cons.prems show ?thesis by simp
  next
    case (Suc k')
    with Cons.prems have ok: "\<forall>s'. d f = Some (VString s') \<longrightarrow> parse s'" by auto
    from Suc Cons.prems have "validateFields parse d fs =
        Some (Errorf (''invalid UUID format for field '' @ fs ! k' @ '': '' @ s))"
      by (intro Cons.IH) auto
    with ok Suc show ?thesis
      by (auto split: option.splits anyval.splits)
  qed
qed

lemma validateFields_None:
  "(\<forall>j<length fs. \<forall>s'. d (fs ! j) = Some (VString s') \<longrightarrow> parse s') \<Longrightarrow>
   validateFields parse d fs = None"
proof (induction fs)
  case Nil
  then show ?case by simp
next
  case (Cons f fs)
  from Cons.prems have ok: "\<forall>s'. d f = Some (VString s') \<longrightarrow> parse s'" by auto
  from Cons.prems have "\<forall>j<length fs. \<forall>s'. d (fs ! j) = Some (VString s') \<longrightarrow> parse s'"
    by auto
  with Cons.IH have "validateFields parse d fs = None" by blast
  with ok show ?case by (auto split: option.splits anyval.splits)
qed

lemma validateParts_first:
  "i < length ps \<Longrightarrow> \<not> parse (ps ! i) \<Longrightarrow> (\<forall>j<i. parse (ps ! j)) \<Longrightarrow>
   validateParts parse n ps =
     Some (Errorf (''invalid UUID format for partId['' @ itoa (n + i) @ '']: '' @ ps ! i))"
proof (induction ps arbitrary: i n)
  case Nil
  then show ?case by simp
next
  case (Cons p ps)
  show ?case
  proof (cases i)
    case 0
    with Cons.prems show ?thesis by simp
  next
    case (Suc i')
    with Cons.prems have "parse p" by auto
    moreover from Suc Cons.prems have "validateParts parse (Suc n) ps =
        Some (Errorf (''invalid UUID format for partId['' @ itoa (Suc n + i') @ '']: '' @ ps ! i'))"
      by (intro Cons.IH) auto
    ultimately show ?thesis using Suc by simp
  qed
qed

lemma validateParts_None: "(\<forall>p \<in> set ps. parse p) \<Longrightarrow> validateParts parse n ps = None"
  by (induction ps arbitrary: n) auto

lemma id_fields:
  assumes "d ''laborLineId'' = Some (VString a)" "d ''accountId'' = Some (VString b)"
    "d ''taskId'' = Some (VString c)"
  shows "j < length uuidFields \<Longrightarrow> d (uuidFields ! j) = Some (VString ([a, b, c] ! j))"
  using assms by (auto simp: uuidFields_def less_Suc_eq)

lemma validateUUIDs_Validate [simp]: "validateUUIDs (L\<lparr>Validate := V\<rparr>) d = validateUUIDs L d"
  by (simp add: validateUUIDs_def split: option.splits anyval.splits)

lemma validateData_first_id:
  assumes "d ''laborLineId'' = Some (VString a)" "d ''accountId'' = Some (VString b)"
    "d ''taskId'' = Some (VString c)"
    and "k < length uuidFields" "\<not> uuid_Parse L ([a, b, c] ! k)"
    and "\<forall>j<k. uuid_Parse L ([a, b, c] ! j)"
  shows "validateData (L\<lparr>Validate := V\<rparr>) d =
    Some (Errorf (''invalid UUID format for field '' @ uuidFields ! k @ '': '' @ [a, b, c] ! k))"
proof -
  note i = id_fields [OF assms(1,2,3)]
  have "\<forall>j<k. \<forall>s'. d (uuidFields ! j) = Some (VString s') \<longrightarrow> uuid_Parse L s'"
    using assms(4,6) i by auto
  with assms(4,5) i [OF assms(4)]
  have "validateFields (uuid_Parse L) d uuidFields =
      Some (Errorf (''invalid UUID format for field '' @ uuidFields ! k @ '': '' @ [a, b, c] ! k))"
    by (intro validateFields_first) auto
  then show ?thesis
    by (simp add: validateData_def validateUUIDs_def)
qed

lemma validateFields_ids:
  assumes "d ''laborLineId'' = Some (VString a)" "d ''accountId'' = Some (VString b)"
    "d ''taskId'' = Some (VString c)"
    and "uuid_Parse L a" "uuid_Parse L b" "uuid_Parse L c"
  shows "validateFields (uuid_Parse L) d uuidFields = None"
  using assms by (simp add: uuidFields_def)

lemma validateData_first_part:
  assumes "d ''laborLineId'' = Some (VString a)" "d ''accountId'' = Some (VString b)"
    "d ''taskId'' = Some (VString c)"
    and "uuid_Parse L a" "uuid_Parse L b" "uuid_Parse L c"
    and "d ''partId'' = Some (VStrings ps)"
    and "i < length ps" "\<not> uuid_Parse L (ps ! i)" "\<forall>j<i. uuid_Parse L (ps ! j)"
  shows "validateData (L\<lparr>Validate := V\<rparr>) d =
    Some (Errorf (''invalid UUID format for partId['' @ itoa i @ '']: '' @ ps ! i))"
proof -
  note f = validateFields_ids [OF assms(1-6)]
  from assms(8,9,10) have "validateParts (uuid_Parse L) 0 ps =
      Some (Errorf (''invalid UUID format for partId['' @ itoa (0 + i) @ '']: '' @ ps ! i))"
    by (intro validateParts_first) auto
  with f assms(7) show ?thesis
    by (simp add: validateData_def validateUUIDs_def)
qed

lemma validateData_schema:
  assumes "d ''laborLineId'' = Some (VString a)" "d ''accountId'' = Some (VString b)"
    "d ''taskId'' = Some (VString c)"
    and "uuid_Parse L a" "uuid_Parse L b" "uuid_Parse L c"
    and "d ''partId'' = map_option VStrings pso"
    and "\<forall>qs. pso = Some qs \<longrightarrow> (\<forall>p \<in> set qs. uuid_Parse L p)"
    and "V d = Inr errs" "errs \<noteq> []"
  shows "validateData (L\<lparr>Validate := V\<rparr>) d =
    Some (Errorf (''validation failed: '' @ sprint_strings errs))"
proof -
  note f = validateFields_ids [OF assms(1-6)]
  have "validateUUIDs L d = None"
  proof (cases pso)
    case None
    with f assms(7) show ?thesis by (simp add: validateUUIDs_def)
  next
    case (Some qs)
    with assms(8) have "validateParts (uuid_Parse L) 0 qs = None"
      by (simp add: validateParts_None)
    with f assms(7) Some show ?thesis by (simp add: validateUUIDs_def)
  qed
  with assms(9,10) show ?thesis
    by (simp add: validateData_def)
qed

lemma createValidationData_fields:
  "createValidationData tmp cin ''laborLineId'' = Some (VString tmp)"
  "createValidationData tmp cin ''accountId'' = Some (VString (cAccountID cin))"
  "createValidationData tmp cin ''taskId'' = Some (VString (cTaskID cin))"
  by (simp_all add: createValidationData_def with_optional_def split: option.splits)

lemma createValidationData_partId:
  "createValidationData tmp cin ''partId'' = map_option VStrings (cPartID cin)"
  by (simp add: createValidationData_def with_optional_def split: option.splits)

lemma updateValidationData_fields:
  "updateValidationData uin ''laborLineId'' = Some (VString (uLaborLineID uin))"
  "updateValidationData uin ''accountId'' = Some (VString (uAccountID uin))"
  "updateValidationData uin ''taskId'' = Some (VString (uTaskID uin))"
  by (simp_all add: updateValidationData_def with_optional_def split: option.splits)

lemma updateValidationData_partId:
  "updateValidationData uin ''partId'' = map_option VStrings (uPartID uin)"
  by (simp add: updateValidationData_def with_optional_def split: option.splits)

section \<open>Precedence of the format checks\<close>

text \<open>
  Claim C3. Both entry points of the validator, \<open>ValidateCreateInput\<close> (with the
  placeholder identifier it draws) and \<open>ValidateUpdateInput\<close>, check identifier formats
  first and stop at the first violation:
  \<^item> at the first of \<open>laborLineId\<close>, \<open>accountId\<close>, \<open>taskId\<close> (in this order) whose string
    does not parse, with an error naming the field and the string;
  \<^item> otherwise at the first element of \<open>partId\<close> that does not parse, with an error
    naming its index.

  In both cases the result is that error whatever the schema engine \<open>V\<close> would report on
  the same payload: the engine is not consulted. When all identifiers are well-formed
  and the engine reports violations, the error carries the whole list of them, in the
  engine's order.
\<close>

theorem format_checks_precede_schema:
  "(k < length uuidFields \<and>
    \<not> uuid_Parse L ([tmp, cAccountID cin, cTaskID cin] ! k) \<and>
    (\<forall>j<k. uuid_Parse L ([tmp, cAccountID cin, cTaskID cin] ! j)) \<longrightarrow>
      ValidateCreateInput (L\<lparr>Validate := V\<rparr>) tmp cin =
        Some (Errorf (''invalid UUID format for field '' @ uuidFields ! k @ '': '' @
                      [tmp, cAccountID cin, cTaskID cin] ! k))) \<and>
   (uuid_Parse L tmp \<and> uuid_Parse L (cAccountID cin) \<and> uuid_Parse L (cTaskID cin) \<and>
    cPartID cin = Some ps \<and> i < length ps \<and> \<not> uuid_Parse L (ps ! i) \<and>
    (\<forall>j<i. uuid_Parse L (ps ! j)) \<longrightarrow>
      ValidateCreateInput (L\<lparr>Validate := V\<rparr>) tmp cin =
        Some (Errorf (''invalid UUID format for partId['' @ itoa i @ '']: '' @ ps ! i))) \<and>
   (uuid_Parse L tmp \<and> uuid_Parse L (cAccountID cin) \<and> uuid_Parse L (cTaskID cin) \<and>
    (\<forall>qs. cPartID cin = Some qs \<longrightarrow> (\<forall>p \<in> set qs. uuid_Parse L p)) \<and>
    V (createValidationData tmp cin) = Inr errs \<and> errs \<noteq> [] \<longrightarrow>
      ValidateCreateInput (L\<lparr>Validate := V\<rparr>) tmp cin =
        Some (Errorf (''validation failed: '' @ sprint_strings errs))) \<and>
   (k' < length uuidFields \<and>
    \<not> uuid_Parse L ([uLaborLineID uin, uAccountID uin, uTaskID uin] ! k') \<and>
    (\<forall>j<k'. uuid_Parse L ([uLaborLineID uin, uAccountID uin, uTaskID uin] ! j)) \<longrightarrow>
      ValidateUpdateInput (L\<lparr>Validate := V\<rparr>) uin =
        Some (Errorf (''invalid UUID format for field '' @ uuidFields ! k' @ '': '' @
                      [uLaborLineID uin, uAccountID uin, uTaskID uin] ! k'))) \<and>
   (uuid_Parse L (uLaborLineID uin) \<and> uuid_Parse L (uAccountID uin) \<and>
    uuid_Parse L (uTaskID uin) \<and>
    uPartID uin = Some ps' \<and> i' < length ps' \<and> \<not> uuid_Parse L (ps' ! i') \<and>
    (\<forall>j<i'. uuid_Parse L (ps' ! j)) \<longrightarrow>
      ValidateUpdateInput (L\<lparr>Validate := V\<rparr>) uin =
        Some (Errorf (''invalid UUID format for partId['' @ itoa i' @ '']: '' @ ps' ! i'))) \<and>
   (uuid_Parse L (uLaborLineID uin) \<and> uuid_Parse L (uAccountID uin) \<and>
    uuid_Parse L (uTaskID uin) \<and>
    (\<forall>qs. uPartID uin = Some qs \<longrightarrow> (\<forall>p \<in> set qs. uuid_Parse L p)) \<and>
    V (updateValidationData uin) = Inr errs' \<and> errs' \<noteq> [] \<longrightarrow>
      ValidateUpdateInput (L\<lparr>Validate := V\<rparr>) uin =
        Some (Errorf (''validation failed: '' @ sprint_strings errs')))"
proof (intro conjI impI)
  note c = createValidationData_fields [of tmp cin]
  note u = updateValidationData_fields [of uin]
  {
    assume "k < length uuidFields \<and>
      \<not> uuid_Parse L ([tmp, cAccountID cin, cTaskID cin] ! k) \<and>
      (\<forall>j<k. uuid_Parse L ([tmp, cAccountID cin, cTaskID cin] ! j))"
    then show "ValidateCreateInput (L\<lparr>Validate := V\<rparr>) tmp cin =
        Some (Errorf (''invalid UUID format for field '' @ uuidFields ! k @ '': '' @
                      [tmp, cAccountID cin, cTaskID cin] ! k))"
      unfolding ValidateCreateInput_def by (intro validateData_first_id [OF c]) blast+
  }
  {
    assume "uuid_Parse L tmp \<and> uuid_Parse L (cAccountID cin) \<and> uuid_Parse L (cTaskID cin) \<and>
      cPartID cin = Some ps \<and> i < length ps \<and> \<not> uuid_Parse L (ps ! i) \<and>
      (\<forall>j<i. uuid_Parse L (ps ! j))"
    then show "ValidateCreateInput (L\<lparr>Validate := V\<rparr>) tmp cin =
        Some (Errorf (''invalid UUID format for partId['' @ itoa i @ '']: '' @ ps ! i))"
      unfolding ValidateCreateInput_def
      by (intro validateData_first_part [OF c]) (simp_all add: createValidationData_partId)
  }
  {
    assume "uuid_Parse L tmp \<and> uuid_Parse L (cAccountID cin) \<and> uuid_Parse L (cTaskID cin) \<and>
      (\<forall>qs. cPartID cin = Some qs \<longrightarrow> (\<forall>p \<in> set qs. uuid_Parse L p)) \<and>
      V (createValidationData tmp cin) = Inr errs \<and> errs \<noteq> []"
    then show "ValidateCreateInput (L\<lparr>Validate := V\<rparr>) tmp cin =
        Some (Errorf (''validation failed: '' @ sprint_strings errs))"
      unfolding ValidateCreateInput_def
      by (intro validateData_schema [OF c, where pso = "cPartID cin"])
        (simp_all add: createValidationData_partId)
  }
  {
    assume "k' < length uuidFields \<and>
      \<not> uuid_Parse L ([uLaborLineID uin, uAccountID uin, uTaskID uin] ! k') \<and>
      (\<forall>j<k'. uuid_Parse L ([uLaborLineID uin, uAccountID uin, uTaskID uin] ! j))"
    then show "ValidateUpdateInput (L\<lparr>Validate := V\<rparr>) uin =
        Some (Errorf (''invalid UUID format for field '' @ uuidFields ! k' @ '': '' @
                      [uLaborLineID uin, uAccountID uin, uTaskID uin] ! k'))"
      unfolding ValidateUpdateInput_def by (intro validateData_first_id [OF u]) blast+
  }
  {
    assume "uuid_Parse L (uLaborLineID uin) \<and> uuid_Parse L (uAccountID uin) \<and>
      uuid_Parse L (uTaskID uin) \<and>
      uPartID uin = Some ps' \<and> i' < length ps' \<and> \<not> uuid_Parse L (ps' ! i') \<and>
      (\<forall>j<i'. uuid_Parse L (ps' ! j))"
    then show "ValidateUpdateInput (L\<lparr>Validate := V\<rparr>) uin =
        Some (Errorf (''invalid UUID format for partId['' @ itoa i' @ '']: '' @ ps' ! i'))"
      unfolding ValidateUpdateInput_def
      by (intro validateData_first_part [OF u]) (simp_all add: updateValidationData_partId)
  }
  {
    assume "uuid_Parse L (uLaborLineID uin) \<and> uuid_Parse L (uAccountID uin) \<and>
      uuid_Parse L (uTaskID uin) \<and>
      (\<forall>qs. uPartID uin = Some qs \<longrightarrow> (\<forall>p \<in> set qs. uuid_Parse L p)) \<and>
      V (updateValidationData uin) = Inr errs' \<and> errs' \<noteq> []"
    then show "ValidateUpdateInput (L\<lparr>Validate := V\<rparr>) uin =
        Some (Errorf (''validation failed: '' @ sprint_strings errs'))"
      unfolding ValidateUpdateInput_def
      by (intro validateData_schema [OF u, where pso = "uPartID uin"])
        (simp_all add: updateValidationData_partId)
  }
qed

theorem format_checks_precede_schema_witness:
  "\<not> uuid_Parse stdlibs (cAccountID both_wrong) \<and>
   Validate stdlibs (createValidationData tmp1 both_wrong) \<noteq> Inr [] \<and>
   ValidateCreateInput stdlibs tmp1 both_wrong =
     Some (Errorf ''invalid UUID format for field accountId: not-a-uuid'') \<and>
   ValidateCreateInput (stdlibs\<lparr>Validate := (\<lambda>d. Inr [])\<rparr>) tmp1 both_wrong =
     Some (Errorf ''invalid UUID format for field accountId: not-a-uuid'') \<and>
   cPartID part_wrong = Some [acct1, ''zzz''] \<and>
   Validate stdlibs (createValidationData tmp1 part_wrong) \<noteq> Inr [] \<and>
   ValidateCreateInput stdlibs tmp1 part_wrong =
     Some (Errorf ''invalid UUID format for partId[1]: zzz'') \<and>
   Validate stdlibs (createValidationData tmp1 notes_wrong) =
     Inr [''notes.0: String length must be greater than or equal to 1'',
          ''notes.1: String length must be greater than or equal to 1''] \<and>
   ValidateCreateInput stdlibs tmp1 notes_wrong =
     Some (Errorf ''validation failed: [notes.0: String length must be greater than or equal to 1 notes.1: String length must be greater than or equal to 1]'') \<and>
   Validate stdlibs (updateValidationData update_wrong) \<noteq> Inr [] \<and>
   ValidateUpdateInput stdlibs update_wrong =
     Some (Errorf ''invalid UUID format for field laborLineId: not-a-uuid'') \<and>
   ValidateUpdateInput stdlibs (update_wrong\<lparr>uLaborLineID := line1, uPartID := Some [''zzz'']\<rparr>) =
     Some (Errorf ''invalid UUID format for partId[0]: zzz'') \<and>
   ValidateUpdateInput stdlibs (update_wrong\<lparr>uLaborLineID := line1\<rparr>) =
     Some (Errorf ''validation failed: [notes.0: String length must be greater than or equal to 1]'')"
proof -
  let ?S = "labor_line_schema"
  let ?up = "update_wrong\<lparr>uLaborLineID := line1, uPartID := Some [''zzz'']\<rparr>"
  let ?un = "update_wrong\<lparr>uLaborLineID := line1\<rparr>"
  have S: "stdlibs\<lparr>Validate := ?S\<rparr> = stdlibs"
    by (simp add: stdlibs_def)
  have V: "Validate stdlibs = ?S"
    by (simp add: stdlibs_def)
  have ids: "uuid_Parse stdlibs tmp1" "uuid_Parse stdlibs acct1" "uuid_Parse stdlibs task1"
    "uuid_Parse stdlibs line1" "\<not> uuid_Parse stdlibs ''not-a-uuid''"
    "\<not> uuid_Parse stdlibs ''zzz''"
    by code_simp+
  have n: "itoa 0 = ''0''" "itoa 1 = ''1''" "itoa (Suc 0) = ''1''"
    by code_simp+
  have len: "length uuidFields = 3" "uuidFields ! 0 = ''laborLineId''"
    "uuidFields ! 1 = ''accountId''" "uuidFields ! Suc 0 = ''accountId''"
    by (simp_all add: uuidFields_def)
  have b: "cAccountID both_wrong = ''not-a-uuid''" "cTaskID both_wrong = task1"
    by (simp_all add: both_wrong_def)
  have p: "cAccountID part_wrong = acct1" "cTaskID part_wrong = task1"
    "cPartID part_wrong = Some [acct1, ''zzz'']"
    by (simp_all add: part_wrong_def)
  have w: "cAccountID notes_wrong = acct1" "cTaskID notes_wrong = task1"
    "cPartID notes_wrong = Some [acct1]"
    by (simp_all add: notes_wrong_def)
  have u: "uLaborLineID update_wrong = ''not-a-uuid''" "uAccountID update_wrong = acct1"
    "uTaskID update_wrong = task1"
    by (simp_all add: update_wrong_def)
  have up: "uLaborLineID ?up = line1" "uAccountID ?up = acct1" "uTaskID ?up = task1"
    "uPartID ?up = Some [''zzz'']"
    by (simp_all add: update_wrong_def)
  have un: "uLaborLineID ?un = line1" "uAccountID ?un = acct1" "uTaskID ?un = task1"
    "uPartID ?un = None"
    by (simp_all add: update_wrong_def)
  have s1: "?S (createValidationData tmp1 both_wrong) \<noteq> Inr []"
    by code_simp
  have s2: "?S (createValidationData tmp1 part_wrong) \<noteq> Inr []"
    by code_simp
  have s3: "?S (createValidationData tmp1 notes_wrong) =
     Inr [''notes.0: String length must be greater than or equal to 1'',
          ''notes.1: String length must be greater than or equal to 1'']"
    by code_simp
  have s4: "?S (updateValidationData update_wrong) \<noteq> Inr []"
    by code_simp
  have s5: "?S (updateValidationData ?un) =
     Inr [''notes.0: String length must be greater than or equal to 1'']"
    by code_simp
  note T = format_checks_precede_schema [where L = stdlibs]
  note TS = format_checks_precede_schema [where L = stdlibs and V = ?S]
  have pre1: "(1::nat) < length uuidFields \<and>
      \<not> uuid_Parse stdlibs ([tmp1, cAccountID both_wrong, cTaskID both_wrong] ! 1) \<and>
      (\<forall>j<1. uuid_Parse stdlibs ([tmp1, cAccountID both_wrong, cTaskID both_wrong] ! j))"
    using ids by (simp add: len b)
  have r1: "ValidateCreateInput (stdlibs\<lparr>Validate := V\<rparr>) tmp1 both_wrong =
      Some (Errorf ''invalid UUID format for field accountId: not-a-uuid'')" for V
    using T [THEN conjunct1, rule_format, OF pre1, of V]
    by (simp add: len b)
  have pre2: "uuid_Parse stdlibs tmp1 \<and> uuid_Parse stdlibs (cAccountID part_wrong) \<and>
      uuid_Parse stdlibs (cTaskID part_wrong) \<and>
      cPartID part_wrong = Some [acct1, ''zzz''] \<and> (1::nat) < length [acct1, ''zzz''] \<and>
      \<not> uuid_Parse stdlibs ([acct1, ''zzz''] ! 1) \<and>
      (\<forall>j<1. uuid_Parse stdlibs ([acct1, ''zzz''] ! j))"
    using ids by (simp add: p)
  have r2: "ValidateCreateInput (stdlibs\<lparr>Validate := ?S\<rparr>) tmp1 part_wrong =
      Some (Errorf ''invalid UUID format for partId[1]: zzz'')"
    using T [THEN conjunct2, THEN conjunct1, rule_format, OF pre2, of ?S]
    by (simp add: n)
  have pre3: "uuid_Parse stdlibs tmp1 \<and> uuid_Parse stdlibs (cAccountID notes_wrong) \<and>
      uuid_Parse stdlibs (cTaskID notes_wrong) \<and>
      (\<forall>qs. cPartID notes_wrong = Some qs \<longrightarrow> (\<forall>p \<in> set qs. uuid_Parse stdlibs p)) \<and>
      ?S (createValidationData tmp1 notes_wrong) =
        Inr [''notes.0: String length must be greater than or equal to 1'',
             ''notes.1: String length must be greater than or equal to 1''] \<and>
      [''notes.0: String length must be greater than or equal to 1'',
       ''notes.1: String length must be greater than or equal to 1''] \<noteq> []"
    using ids s3 by (simp add: w)
  have r3: "ValidateCreateInput (stdlibs\<lparr>Validate := ?S\<rparr>) tmp1 notes_wrong =
      Some (Errorf ''validation failed: [notes.0: String length must be greater than or equal to 1 notes.1: String length must be greater than or equal to 1]'')"
    using TS [THEN conjunct2, THEN conjunct2, THEN conjunct1, rule_format, OF pre3]
    by (simp add: sprint_strings_def)
  have pre4: "(0::nat) < length uuidFields \<and>
      \<not> uuid_Parse stdlibs
          ([uLaborLineID update_wrong, uAccountID update_wrong, uTaskID update_wrong] ! 0) \<and>
      (\<forall>j<0. uuid_Parse stdlibs
          ([uLaborLineID update_wrong, uAccountID update_wrong, uTaskID update_wrong] ! j))"
    using ids by (simp add: len u)
  have r4: "ValidateUpdateInput (stdlibs\<lparr>Validate := ?S\<rparr>) update_wrong =
      Some (Errorf ''invalid UUID format for field laborLineId: not-a-uuid'')"
    using T [THEN conjunct2, THEN conjunct2, THEN conjunct2, THEN conjunct1, rule_format,
        OF pre4, of ?S]
    by (simp add: len u)
  have pre5: "uuid_Parse stdlibs (uLaborLineID ?up) \<and> uuid_Parse stdlibs (uAccountID ?up) \<and>
      uuid_Parse stdlibs (uTaskID ?up) \<and>
      uPartID ?up = Some [''zzz''] \<and> (0::nat) < length [''zzz''] \<and>
      \<not> uuid_Parse stdlibs ([''zzz''] ! 0) \<and>
      (\<forall>j<0. uuid_Parse stdlibs ([''zzz''] ! j))"
    using ids by (simp add: up)
  have r5: "ValidateUpdateInput (stdlibs\<lparr>Validate := ?S\<rparr>) ?up =
      Some (Errorf ''invalid UUID format for partId[0]: zzz'')"
    using T [THEN conjunct2, THEN conjunct2, THEN conjunct2, THEN conjunct2, THEN conjunct1,
        rule_format, OF pre5, of ?S]
    by (simp add: n)
  have pre6: "uuid_Parse stdlibs (uLaborLineID ?un) \<and> uuid_Parse stdlibs (uAccountID ?un) \<and>
      uuid_Parse stdlibs (uTaskID ?un) \<and>
      (\<forall>qs. uPartID ?un = Some qs \<longrightarrow> (\<forall>p \<in> set qs. uuid_Parse stdlibs p)) \<and>
      ?S (updateValidationData ?un) =
        Inr [''notes.0: String length must be greater than or equal to 1''] \<and>
      [''notes.0: String length must be greater than or equal to 1''] \<noteq> []"
    using ids s5 by (simp add: un)
  have r6: "ValidateUpdateInput (stdlibs\<lparr>Validate := ?S\<rparr>) ?un =
      Some (Errorf ''validation failed: [notes.0: String length must be greater than or equal to 1]'')"
    using TS [THEN conjunct2, THEN conjunct2, THEN conjunct2, THEN conjunct2, THEN conjunct2,
        rule_format, OF pre6]
    by (simp add: sprint_strings_def)
  show ?thesis
    using r1 [of ?S] r1 [of "\<lambda>d. Inr []"] r2 r3 r4 r5 r6 s1 s2 s3 s4 ids(5) p(3)
    unfolding S V b(1) by (intro conjI)
qed

end
